theory Spec2Isabelle
  imports Complex_Main
begin

section \<open>JavaScript values, exceptions and the operators the clients use\<close>

text \<open>
  The two clients of the package (\<^verbatim>\<open>src/index.ts\<close>, class \<^verbatim>\<open>VerifiableClaude\<close>, and
  \<^verbatim>\<open>src/eigenai.ts\<close>, class \<^verbatim>\<open>VerifiableEigenAI\<close>) are TypeScript. Values whose
  static type is declared in \<^verbatim>\<open>src/types.ts\<close> are modelled by records; values that reach
  the code as \<^verbatim>\<open>any\<close> (the result of \<^verbatim>\<open>JSON.parse\<close>, the proof bundle of the witness
  network) are modelled by the untyped \<open>jsval\<close>, with the run-time behaviour of property
  access written out. A JavaScript number is kept as the rational it denotes: the code
  passes numbers on and tests them for zero, and the one product it computes is rounded
  to a double as IEEE 754 does (below). \<^verbatim>\<open>NaN\<close> and the infinities are left out.
\<close>

datatype jsval =
    JUndefined
  | JNull
  | JBool bool
  | JNum rat
  | JStr string
  | JArr "jsval list"
  | JObj "(string \<times> jsval) list"

text \<open>
  What a \<^verbatim>\<open>throw\<close> carries: an \<^verbatim>\<open>Error\<close> (also a \<^verbatim>\<open>TypeError\<close> or a
  \<^verbatim>\<open>SyntaxError\<close>) with its message, or any other value. An operation that may throw
  returns \<open>thrown + 'a\<close>, \<open>Inl\<close> for the exception; for an \<^verbatim>\<open>async\<close> method \<open>Inl\<close> is the
  rejected promise.
\<close>

datatype thrown = Error string | Thrown jsval

fun bind_t :: "thrown + 'a \<Rightarrow> ('a \<Rightarrow> thrown + 'b) \<Rightarrow> thrown + 'b" where
  "bind_t (Inl e) f = Inl e"
| "bind_t (Inr x) f = f x"

text \<open>\<^verbatim>\<open>error instanceof Error ? error.message : d\<close>\<close>

fun message_or :: "thrown \<Rightarrow> string \<Rightarrow> string" where
  "message_or (Error m) d = m"
| "message_or (Thrown v) d = d"

fun truthy :: "jsval \<Rightarrow> bool" where
  "truthy JUndefined = False"
| "truthy JNull = False"
| "truthy (JBool b) = b"
| "truthy (JNum n) = (n \<noteq> 0)"
| "truthy (JStr s) = (s \<noteq> [])"
| "truthy (JArr xs) = True"
| "truthy (JObj fs) = True"

definition nullish :: "jsval \<Rightarrow> bool" where
  "nullish v = (v = JUndefined \<or> v = JNull)"

text \<open>\<^verbatim>\<open>a || b\<close> and \<^verbatim>\<open>a ?? b\<close> on run-time values.\<close>

definition js_or :: "jsval \<Rightarrow> jsval \<Rightarrow> jsval" where
  "js_or a b = (if truthy a then a else b)"

definition js_coalesce :: "jsval \<Rightarrow> jsval \<Rightarrow> jsval" where
  "js_coalesce a b = (if nullish a then b else a)"

text \<open>
  Reading the property \<open>k\<close> of a value that is neither \<^verbatim>\<open>undefined\<close> nor \<^verbatim>\<open>null\<close>: an
  object gives the value stored under \<open>k\<close> (the first binding of the list) or
  \<^verbatim>\<open>undefined\<close>; a primitive or an array has none of the data properties the clients
  read (\<^verbatim>\<open>model\<close>, \<^verbatim>\<open>seed\<close>, \<^verbatim>\<open>requestParams\<close>, \<^verbatim>\<open>messages\<close>, \<^verbatim>\<open>maxTokens\<close>,
  \<^verbatim>\<open>temperature\<close>, \<^verbatim>\<open>role\<close>, \<^verbatim>\<open>content\<close>, \<^verbatim>\<open>type\<close>, \<^verbatim>\<open>text\<close>,
  \<^verbatim>\<open>extractedParameterValues\<close>, \<^verbatim>\<open>response\<close>).
\<close>

fun own_prop :: "jsval \<Rightarrow> string \<Rightarrow> jsval" where
  "own_prop (JObj fs) k = (case map_of fs k of Some v \<Rightarrow> v | None \<Rightarrow> JUndefined)"
| "own_prop v k = JUndefined"

text \<open>\<^verbatim>\<open>v.k\<close>: a \<^verbatim>\<open>TypeError\<close> on \<^verbatim>\<open>undefined\<close> and \<^verbatim>\<open>null\<close> (the message is V8's).\<close>

fun get_prop :: "jsval \<Rightarrow> string \<Rightarrow> thrown + jsval" where
  "get_prop JUndefined k =
     Inl (Error (''Cannot read properties of undefined (reading '' @ [CHR 0x27] @ k @ [CHR 0x27] @ '')''))"
| "get_prop JNull k =
     Inl (Error (''Cannot read properties of null (reading '' @ [CHR 0x27] @ k @ [CHR 0x27] @ '')''))"
| "get_prop v k = Inr (own_prop v k)"

text \<open>\<^verbatim>\<open>v?.k\<close>\<close>

definition opt_get :: "jsval \<Rightarrow> string \<Rightarrow> jsval" where
  "opt_get v k = (if nullish v then JUndefined else own_prop v k)"

text \<open>
  The same operators on optional fields of a declared type: \<open>None\<close> is the absent field.
  \<^verbatim>\<open>a || d\<close> takes the default for an absent, empty or zero value, \<^verbatim>\<open>a ?? d\<close> for an
  absent one only.
\<close>

definition or_string :: "string option \<Rightarrow> string \<Rightarrow> string" where
  "or_string a d = (case a of None \<Rightarrow> d | Some s \<Rightarrow> (if s = [] then d else s))"

definition or_number :: "rat option \<Rightarrow> rat \<Rightarrow> rat" where
  "or_number a d = (case a of None \<Rightarrow> d | Some n \<Rightarrow> (if n = 0 then d else n))"

definition coalesce_number :: "rat option \<Rightarrow> rat \<Rightarrow> rat" where
  "coalesce_number a d = (case a of None \<Rightarrow> d | Some n \<Rightarrow> n)"

subsection \<open>Double-precision arithmetic\<close>

text \<open>
  A JavaScript number is an IEEE 754 double, and \<^verbatim>\<open>a * b\<close> is the exact product rounded
  to the nearest double, ties to the even significand. \<open>binade n x\<close> searches downwards
  for the largest exponent \<open>e\<close> from \<open>n - 1022\<close> to \<open>-1021\<close> with \<open>2 powi e \<le> x\<close>, and
  gives \<open>-1022\<close>, the exponent of the subnormal numbers, when there is none; from
  \<open>n = 2045\<close> the search starts at the largest exponent of a double, \<open>1023\<close>. The doubles
  with exponent \<open>e\<close> are the multiples of \<open>2\<close> to the power \<open>e - 52\<close>. A rational is
  a double exactly when rounding leaves it unchanged. Overflow to infinity (from \<open>2\<close> to
  the power \<open>1024\<close> on) is left out.
\<close>

primrec binade :: "nat \<Rightarrow> rat \<Rightarrow> int" where
  "binade 0 x = - 1022"
| "binade (Suc n) x = (if 2 powi (int n - 1021) \<le> x then int n - 1021 else binade n x)"

definition exponent :: "rat \<Rightarrow> int" where
  "exponent x = binade 2045 \<bar>x\<bar>"

definition round_half_even :: "rat \<Rightarrow> int" where
  "round_half_even q =
     (let f = \<lfloor>q\<rfloor>; d = q - of_int f
      in if d < 1 / 2 then f else if 1 / 2 < d then f + 1 else if even f then f else f + 1)"

definition round_double :: "rat \<Rightarrow> rat" where
  "round_double x =
     (let ulp = 2 powi (exponent x - 52) in of_int (round_half_even (x / ulp)) * ulp)"

section \<open>The data model of \<^verbatim>\<open>src/types.ts\<close>\<close>

datatype Role = user | assistant | system_role

record Message =
  role :: Role
  content :: string

record VerificationResult =
  isValid :: bool
  verifiedEndpoint :: "string option"
  error :: "string option"

datatype VerificationProvider = reclaim | eigenai

text \<open>
  \<^verbatim>\<open>VerifiableClaudeConfig\<close> and \<^verbatim>\<open>EigenAIConfig\<close> share \<^verbatim>\<open>apiKey\<close> and \<^verbatim>\<open>endpoint\<close>,
  and the two option interfaces share six fields; the shared fields are a base record
  here, so that each keeps its name.
\<close>

record ClientConfig =
  apiKey :: string
  endpoint :: "string option"

record VerifiableClaudeConfig = ClientConfig +
  reclaimAppId :: string
  reclaimAppSecret :: string

type_synonym EigenAIConfig = ClientConfig

record GenerateOptions =
  model :: "string option"
  messages :: "Message list option"
  prompt :: "string option"
  system :: "string option"
  maxTokens :: "rat option"
  temperature :: "rat option"

record ClaudeGenerateOptions = GenerateOptions +
  stopSequences :: "string list option"

record EigenAIGenerateOptions = GenerateOptions +
  seed :: "rat option"
  stop :: "string list option"

text \<open>
  \<^verbatim>\<open>VerifiableClaudeResult\<close>. The field \<^verbatim>\<open>text\<close> is declared a string, but
  \<^verbatim>\<open>generate\<close> assigns it from the parsed response, which is \<^verbatim>\<open>any\<close>: the model keeps
  the run-time value. The proof bundle is opaque to the client.
\<close>

record VerifiableClaudeResult =
  text_c :: jsval
  proof_c :: jsval
  timestamp_c :: rat
  model_c :: string
  provider_c :: VerificationProvider
  rawResponse_c :: jsval

record SerializedClaudeProof =
  proofJson :: string
  text_sc :: jsval
  timestamp_sc :: rat
  model_sc :: string
  provider_sc :: VerificationProvider

record RequestParams =
  messages_rp :: "Message list"
  temperature_rp :: "rat option"
  maxTokens_rp :: "rat option"

record EigenAIAttestation =
  seed_a :: rat
  model_a :: string
  requestId :: "string option"
  signatures :: "string list option"
  requestParams :: RequestParams

text \<open>The part of the provider's chat completion that the client reads.\<close>

record ChatCompletionMessage =
  content_m :: "string option"

record Choice =
  message :: ChatCompletionMessage

record ChatCompletion =
  id_r :: string
  choices :: "Choice list"

record EigenAIResult =
  text_e :: string
  attestation :: EigenAIAttestation
  timestamp_e :: rat
  model_e :: string
  provider_e :: VerificationProvider
  rawResponse_e :: ChatCompletion

record SerializedEigenAIProof =
  attestationJson :: string
  text_se :: string
  timestamp_se :: rat
  model_se :: string
  provider_se :: VerificationProvider

record EigenAIVerificationResult = VerificationResult +
  outputMatches :: "bool option"
  reExecutedOutput :: "string option"

text \<open>
  \<^verbatim>\<open>SerializedProof = SerializedClaudeProof | SerializedEigenAIProof\<close>: what a verifier of
  serialized proofs can be handed at run time. Reading a field that the variant does not
  have gives \<^verbatim>\<open>undefined\<close>.
\<close>

datatype SerializedProof =
    OfClaude SerializedClaudeProof
  | OfEigenAI SerializedEigenAIProof

fun proofJson_of :: "SerializedProof \<Rightarrow> jsval" where
  "proofJson_of (OfClaude s) = JStr (proofJson s)"
| "proofJson_of (OfEigenAI s) = JUndefined"

fun attestationJson_of :: "SerializedProof \<Rightarrow> jsval" where
  "attestationJson_of (OfClaude s) = JUndefined"
| "attestationJson_of (OfEigenAI s) = JStr (attestationJson s)"

fun text_of :: "SerializedProof \<Rightarrow> jsval" where
  "text_of (OfClaude s) = text_sc s"
| "text_of (OfEigenAI s) = JStr (text_se s)"

section \<open>The collaborators\<close>

text \<open>
  The request of \<^verbatim>\<open>reclaimClient.zkFetch\<close>: the URL, the public options (method and
  body; the public header is the constant content type) and the key sent in the hidden
  \<^verbatim>\<open>x-api-key\<close> header. The hidden version header and the response-match rule are
  constants of the call and are left out.
\<close>

record zkFetchRequest =
  url :: string
  http_method :: string
  body :: string
  x_api_key :: string

text \<open>
  The argument of \<^verbatim>\<open>client.chat.completions.create\<close>. On the path that replays a
  parsed attestation the fields are whatever the JSON held, so they are run-time values.
\<close>

record ChatMessageParam =
  role_p :: jsval
  content_p :: jsval

record ChatCompletionRequest =
  model_q :: jsval
  messages_q :: "ChatMessageParam list"
  max_tokens :: jsval
  temperature_q :: jsval
  seed_q :: jsval
  stop_q :: jsval

text \<open>
  Everything outside the repository that the clients call: the witness network
  (\<^verbatim>\<open>zkFetch\<close>), the proof check of the Reclaim SDK (\<^verbatim>\<open>verifyProof\<close>), the inference
  provider, \<^verbatim>\<open>JSON\<close>, \<^verbatim>\<open>Math.random\<close> and \<^verbatim>\<open>Date.now\<close>. \<^verbatim>\<open>JSON.parse\<close> takes any
  value (it converts its argument to a string itself). Each collaborator is a function of
  its argument: a provider whose answers do not change between two calls.
\<close>

record collaborators =
  zkFetch :: "zkFetchRequest \<Rightarrow> thrown + jsval"
  verifyProof :: "jsval \<Rightarrow> thrown + bool"
  chat_completions_create :: "ChatCompletionRequest \<Rightarrow> thrown + ChatCompletion"
  JSON_parse :: "jsval \<Rightarrow> thrown + jsval"
  JSON_stringify :: "jsval \<Rightarrow> string"
  Math_random :: rat
  Date_now :: rat

text \<open>How a value of a declared type looks to \<^verbatim>\<open>JSON.stringify\<close> and to the provider.\<close>

fun role_js :: "Role \<Rightarrow> jsval" where
  "role_js user = JStr ''user''"
| "role_js assistant = JStr ''assistant''"
| "role_js system_role = JStr ''system''"

definition message_js :: "Message \<Rightarrow> jsval" where
  "message_js m = JObj [(''role'', role_js (role m)), (''content'', JStr (content m))]"

definition message_param :: "Message \<Rightarrow> ChatMessageParam" where
  "message_param m = \<lparr>role_p = role_js (role m), content_p = JStr (content m)\<rparr>"

definition optional_field :: "string \<Rightarrow> 'a option \<Rightarrow> ('a \<Rightarrow> jsval) \<Rightarrow> (string \<times> jsval) list" where
  "optional_field k a f = (case a of None \<Rightarrow> [] | Some x \<Rightarrow> [(k, f x)])"

definition strings_js :: "string list \<Rightarrow> jsval" where
  "strings_js xs = JArr (map JStr xs)"

definition attestation_js :: "EigenAIAttestation \<Rightarrow> jsval" where
  "attestation_js a =
     JObj ([(''seed'', JNum (seed_a a)), (''model'', JStr (model_a a))]
           @ optional_field ''requestId'' (requestId a) JStr
           @ optional_field ''signatures'' (signatures a) strings_js
           @ [(''requestParams'',
               JObj ([(''messages'', JArr (map message_js (messages_rp (requestParams a))))]
                     @ optional_field ''temperature'' (temperature_rp (requestParams a)) JNum
                     @ optional_field ''maxTokens'' (maxTokens_rp (requestParams a)) JNum))])"

section \<open>The transcript-proof client: class \<^verbatim>\<open>VerifiableClaude\<close> of \<^verbatim>\<open>src/index.ts\<close>\<close>

definition ANTHROPIC_API_ENDPOINT :: string where
  "ANTHROPIC_API_ENDPOINT = ''https://api.anthropic.com/v1''"

text \<open>
  The instance: its configuration and the endpoint the constructor computes,
  \<^verbatim>\<open>config.endpoint || ANTHROPIC_API_ENDPOINT\<close>. The Reclaim client it also holds is the
  collaborator \<open>zkFetch\<close>.
\<close>

record VerifiableClaude =
  config_c :: VerifiableClaudeConfig
  endpoint_c :: string

definition createVerifiableClaude :: "VerifiableClaudeConfig \<Rightarrow> VerifiableClaude" where
  "createVerifiableClaude config =
     \<lparr>config_c = config, endpoint_c = or_string (endpoint config) ANTHROPIC_API_ENDPOINT\<rparr>"

text \<open>
  The messages of \<^verbatim>\<open>generate\<close>: \<^verbatim>\<open>if (options.messages) ... else if (options.prompt)
  ... else throw\<close>. An array is truthy whatever its length; a string is truthy when it is
  not empty.
\<close>

definition claude_messages :: "ClaudeGenerateOptions \<Rightarrow> thrown + Message list" where
  "claude_messages options =
     (case messages options of
        Some ms \<Rightarrow> Inr ms
      | None \<Rightarrow>
          (case prompt options of
             Some p \<Rightarrow>
               (if p = [] then Inl (Error ''Either 'messages' or 'prompt' must be provided'')
                else Inr [\<lparr>role = user, content = p\<rparr>])
           | None \<Rightarrow> Inl (Error ''Either 'messages' or 'prompt' must be provided'')))"

text \<open>The request body, with its keys in the order the code sets them.\<close>

definition claude_body ::
  "ClaudeGenerateOptions \<Rightarrow> string \<Rightarrow> rat \<Rightarrow> Message list \<Rightarrow> rat \<Rightarrow> jsval" where
  "claude_body options model' maxTokens' messages' temperature' =
     JObj ([(''model'', JStr model'), (''max_tokens'', JNum maxTokens'),
            (''messages'', JArr (map message_js messages'))]
           @ (case system options of
                None \<Rightarrow> []
              | Some s \<Rightarrow> (if s = [] then [] else [(''system'', JStr s)]))
           @ [(''temperature'', JNum temperature')]
           @ (case stopSequences options of
                None \<Rightarrow> []
              | Some xs \<Rightarrow> (if xs = [] then [] else [(''stop_sequences'', strings_js xs)])))"

text \<open>
  \<^verbatim>\<open>response.content.find((item) => item.type === "text")\<close>: the first item whose
  \<^verbatim>\<open>type\<close> is the string \<^verbatim>\<open>text\<close>, \<^verbatim>\<open>undefined\<close> when there is none. The callback
  reads \<^verbatim>\<open>item.type\<close> of every item up to the one found, and that read throws on
  \<^verbatim>\<open>null\<close>.
\<close>

fun find_text :: "jsval list \<Rightarrow> thrown + jsval" where
  "find_text [] = Inr JUndefined"
| "find_text (item # rest) =
     bind_t (get_prop item ''type'')
       (\<lambda>t. if t = JStr ''text'' then Inr item else find_text rest)"

text \<open>The \<^verbatim>\<open>try\<close> block of \<^verbatim>\<open>generate\<close>.\<close>

definition VerifiableClaude_generate_try ::
  "collaborators \<Rightarrow> string \<Rightarrow> zkFetchRequest \<Rightarrow> thrown + VerifiableClaudeResult" where
  "VerifiableClaude_generate_try env model' request =
     bind_t (zkFetch env request) (\<lambda>proof'.
       if \<not> truthy proof' then Inl (Error ''Failed to generate proof - no proof returned'')
       else
         bind_t (get_prop proof' ''extractedParameterValues'') (\<lambda>extracted.
           let responseJson = opt_get extracted ''response'' in
           if \<not> truthy responseJson then Inl (Error ''Failed to extract response from proof'')
           else
             bind_t (JSON_parse env responseJson) (\<lambda>response.
               bind_t (get_prop response ''content'') (\<lambda>content'.
                 bind_t
                   (case content' of
                      JArr items \<Rightarrow>
                        bind_t (find_text items)
                          (\<lambda>textContent. Inr (js_or (opt_get textContent ''text'') (JStr [])))
                    | _ \<Rightarrow> Inr (JStr []))
                   (\<lambda>text'.
                      Inr \<lparr>text_c = text', proof_c = proof', timestamp_c = Date_now env,
                           model_c = model', provider_c = reclaim,
                           rawResponse_c = response\<rparr>)))))"

text \<open>
  \<^verbatim>\<open>generate\<close>. The result is paired with the requests that were handed to the witness
  network, in order: none when the method throws before the \<^verbatim>\<open>try\<close> block. The
  \<^verbatim>\<open>catch\<close> rethrows with a prefix.
\<close>

definition VerifiableClaude_generate ::
  "collaborators \<Rightarrow> VerifiableClaude \<Rightarrow> ClaudeGenerateOptions
     \<Rightarrow> zkFetchRequest list \<times> (thrown + VerifiableClaudeResult)" where
  "VerifiableClaude_generate env this options =
     (let model' = or_string (model options) ''claude-3-5-sonnet-20241022'';
          maxTokens' = or_number (maxTokens options) 1024;
          temperature' = coalesce_number (temperature options) 1
      in case claude_messages options of
           Inl e \<Rightarrow> ([], Inl e)
         | Inr messages' \<Rightarrow>
             (let request =
                    \<lparr>url = endpoint_c this @ ''/messages'', http_method = ''POST'',
                     body = JSON_stringify env
                              (claude_body options model' maxTokens' messages' temperature'),
                     x_api_key = apiKey (config_c this)\<rparr>
              in ([request],
                  case VerifiableClaude_generate_try env model' request of
                    Inl e \<Rightarrow>
                      Inl (Error (''Verifiable generation failed: ''
                                  @ message_or e ''Unknown error occurred''))
                  | Inr r \<Rightarrow> Inr r)))"

text \<open>The \<^verbatim>\<open>catch\<close> block of both verification methods.\<close>

definition verification_failed :: "thrown \<Rightarrow> VerificationResult" where
  "verification_failed e =
     \<lparr>isValid = False, verifiedEndpoint = None,
      error = Some (message_or e ''Verification failed'')\<rparr>"

text \<open>\<^verbatim>\<open>verify\<close>: its \<^verbatim>\<open>try\<close> block, then the method.\<close>

definition VerifiableClaude_verify_try ::
  "collaborators \<Rightarrow> VerifiableClaude \<Rightarrow> VerifiableClaudeResult \<Rightarrow> thrown + VerificationResult" where
  "VerifiableClaude_verify_try env this result =
     bind_t (verifyProof env (proof_c result)) (\<lambda>valid.
       Inr \<lparr>isValid = valid,
            verifiedEndpoint = (if valid then Some (endpoint_c this @ ''/messages'') else None),
            error = None\<rparr>)"

definition VerifiableClaude_verify ::
  "collaborators \<Rightarrow> VerifiableClaude \<Rightarrow> VerifiableClaudeResult \<Rightarrow> thrown + VerificationResult" where
  "VerifiableClaude_verify env this result =
     (case VerifiableClaude_verify_try env this result of
        Inl e \<Rightarrow> Inr (verification_failed e)
      | Inr r \<Rightarrow> Inr r)"

text \<open>
  The static \<^verbatim>\<open>verifySerializedProof\<close>: it has no instance, and names the constant
  endpoint.
\<close>

definition VerifiableClaude_verifySerializedProof_try ::
  "collaborators \<Rightarrow> SerializedProof \<Rightarrow> thrown + VerificationResult" where
  "VerifiableClaude_verifySerializedProof_try env serialized =
     bind_t (JSON_parse env (proofJson_of serialized)) (\<lambda>proof'.
       bind_t (verifyProof env proof') (\<lambda>valid.
         Inr \<lparr>isValid = valid,
              verifiedEndpoint =
                (if valid then Some (ANTHROPIC_API_ENDPOINT @ ''/messages'') else None),
              error = None\<rparr>))"

definition VerifiableClaude_verifySerializedProof ::
  "collaborators \<Rightarrow> SerializedProof \<Rightarrow> thrown + VerificationResult" where
  "VerifiableClaude_verifySerializedProof env serialized =
     (case VerifiableClaude_verifySerializedProof_try env serialized of
        Inl e \<Rightarrow> Inr (verification_failed e)
      | Inr r \<Rightarrow> Inr r)"

definition VerifiableClaude_serializeResult ::
  "collaborators \<Rightarrow> VerifiableClaudeResult \<Rightarrow> SerializedClaudeProof" where
  "VerifiableClaude_serializeResult env result =
     \<lparr>proofJson = JSON_stringify env (proof_c result), text_sc = text_c result,
      timestamp_sc = timestamp_c result, model_sc = model_c result, provider_sc = reclaim\<rparr>"

section \<open>The re-execution client: class \<^verbatim>\<open>VerifiableEigenAI\<close> of \<^verbatim>\<open>src/eigenai.ts\<close>\<close>

definition EIGENAI_ENDPOINT :: string where
  "EIGENAI_ENDPOINT = ''https://eigenai.eigencloud.xyz/v1''"

definition DEFAULT_MODEL :: string where
  "DEFAULT_MODEL = ''gpt-oss-120b-f16''"

record VerifiableEigenAI =
  config_e :: EigenAIConfig
  endpoint_e :: string

definition createVerifiableEigenAI :: "EigenAIConfig \<Rightarrow> VerifiableEigenAI" where
  "createVerifiableEigenAI config =
     \<lparr>config_e = config, endpoint_e = or_string (endpoint config) EIGENAI_ENDPOINT\<rparr>"

text \<open>
  \<^verbatim>\<open>Math.floor(Math.random() * 2147483647)\<close>: the double product of the random
  number and the constant (itself a double), then its floor, which is exact.
\<close>

definition generateSeed :: "collaborators \<Rightarrow> rat" where
  "generateSeed env = of_int \<lfloor>round_double (Math_random env * 2147483647)\<rfloor>"

text \<open>\<^verbatim>\<open>response.choices[0]?.message?.content || ""\<close>\<close>

definition output_text :: "ChatCompletion \<Rightarrow> string" where
  "output_text response =
     or_string (case choices response of [] \<Rightarrow> None | c # cs \<Rightarrow> content_m (message c)) []"

text \<open>
  The messages of \<^verbatim>\<open>generate\<close>: the system prompt first when it is a non-empty string,
  then \<^verbatim>\<open>options.messages\<close> when supplied, else the prompt as one user message, else a
  throw.
\<close>

definition eigenai_messages :: "EigenAIGenerateOptions \<Rightarrow> thrown + Message list" where
  "eigenai_messages options =
     (let messages0 =
            (case system options of
               None \<Rightarrow> []
             | Some s \<Rightarrow> (if s = [] then [] else [\<lparr>role = system_role, content = s\<rparr>]))
      in case messages options of
           Some ms \<Rightarrow> Inr (messages0 @ ms)
         | None \<Rightarrow>
             (case prompt options of
                Some p \<Rightarrow>
                  (if p = [] then Inl (Error ''Either 'messages' or 'prompt' must be provided'')
                   else Inr (messages0 @ [\<lparr>role = user, content = p\<rparr>]))
              | None \<Rightarrow> Inl (Error ''Either 'messages' or 'prompt' must be provided'')))"

text \<open>
  \<^verbatim>\<open>generate\<close>, paired with the requests handed to the provider. The seed is
  \<^verbatim>\<open>options.seed ?? this.generateSeed()\<close>.
\<close>

definition VerifiableEigenAI_generate ::
  "collaborators \<Rightarrow> VerifiableEigenAI \<Rightarrow> EigenAIGenerateOptions
     \<Rightarrow> ChatCompletionRequest list \<times> (thrown + EigenAIResult)" where
  "VerifiableEigenAI_generate env this options =
     (let model' = or_string (model options) DEFAULT_MODEL;
          maxTokens' = or_number (maxTokens options) 1024;
          temperature' = coalesce_number (temperature options) 0;
          seed' = (case seed options of Some s \<Rightarrow> s | None \<Rightarrow> generateSeed env)
      in case eigenai_messages options of
           Inl e \<Rightarrow> ([], Inl e)
         | Inr messages' \<Rightarrow>
             (let request =
                    \<lparr>model_q = JStr model', messages_q = map message_param messages',
                     max_tokens = JNum maxTokens', temperature_q = JNum temperature',
                     seed_q = JNum seed',
                     stop_q = (case stop options of None \<Rightarrow> JUndefined | Some xs \<Rightarrow> strings_js xs)\<rparr>
              in ([request],
                  case chat_completions_create env request of
                    Inl e \<Rightarrow>
                      Inl (Error (''EigenAI generation failed: ''
                                  @ message_or e ''Unknown error occurred''))
                  | Inr response \<Rightarrow>
                      Inr \<lparr>text_e = output_text response,
                           attestation =
                             \<lparr>seed_a = seed', model_a = model',
                              requestId = Some (id_r response), signatures = None,
                              requestParams =
                                \<lparr>messages_rp = messages', temperature_rp = Some temperature',
                                 maxTokens_rp = Some maxTokens'\<rparr>\<rparr>,
                           timestamp_e = Date_now env, model_e = model',
                           provider_e = eigenai, rawResponse_e = response\<rparr>)))"

text \<open>The \<^verbatim>\<open>catch\<close> block of both verification methods of this client.\<close>

definition reexecution_failed :: "thrown \<Rightarrow> EigenAIVerificationResult" where
  "reexecution_failed e =
     \<lparr>isValid = False, verifiedEndpoint = None,
      error = Some (message_or e ''Verification failed''),
      outputMatches = Some False, reExecutedOutput = None\<rparr>"

text \<open>
  What both methods return after the provider has answered: \<^verbatim>\<open>expected\<close> is
  \<^verbatim>\<open>result.text\<close> or \<^verbatim>\<open>serialized.text\<close>, compared with \<^verbatim>\<open>===\<close>.
\<close>

definition compare_output ::
  "VerifiableEigenAI \<Rightarrow> ChatCompletion \<Rightarrow> jsval \<Rightarrow> EigenAIVerificationResult" where
  "compare_output this response expected =
     (let reExecutedOutput' = output_text response;
          outputMatches' = (JStr reExecutedOutput' = expected)
      in \<lparr>isValid = outputMatches',
          verifiedEndpoint = (if outputMatches' then Some (endpoint_e this) else None),
          error = None,
          outputMatches = Some outputMatches', reExecutedOutput = Some reExecutedOutput'\<rparr>)"

text \<open>
  \<^verbatim>\<open>verify\<close> on a result of the declared type: the \<^verbatim>\<open>try\<close> block, paired with the
  requests handed to the provider, then the method.
\<close>

definition VerifiableEigenAI_verify_try ::
  "collaborators \<Rightarrow> VerifiableEigenAI \<Rightarrow> EigenAIResult
     \<Rightarrow> ChatCompletionRequest list \<times> (thrown + EigenAIVerificationResult)" where
  "VerifiableEigenAI_verify_try env this result =
     (let attestation' = attestation result;
          request =
            \<lparr>model_q = JStr (model_a attestation'),
             messages_q = map message_param (messages_rp (requestParams attestation')),
             max_tokens = JNum (or_number (maxTokens_rp (requestParams attestation')) 1024),
             temperature_q =
               JNum (coalesce_number (temperature_rp (requestParams attestation')) 0),
             seed_q = JNum (seed_a attestation'),
             stop_q = JUndefined\<rparr>
      in ([request],
          bind_t (chat_completions_create env request) (\<lambda>response.
            Inr (compare_output this response (JStr (text_e result))))))"

definition VerifiableEigenAI_verify ::
  "collaborators \<Rightarrow> VerifiableEigenAI \<Rightarrow> EigenAIResult
     \<Rightarrow> ChatCompletionRequest list \<times> (thrown + EigenAIVerificationResult)" where
  "VerifiableEigenAI_verify env this result =
     (case VerifiableEigenAI_verify_try env this result of
        (sent, Inl e) \<Rightarrow> (sent, Inr (reexecution_failed e))
      | (sent, Inr r) \<Rightarrow> (sent, Inr r))"

text \<open>
  \<^verbatim>\<open>attestation.requestParams.messages.map((m) => ({role: m.role, content:
  m.content}))\<close> on a parsed value: a \<^verbatim>\<open>TypeError\<close> when the value is not an array or an
  element is \<^verbatim>\<open>null\<close>.
\<close>

fun message_params :: "jsval list \<Rightarrow> thrown + ChatMessageParam list" where
  "message_params [] = Inr []"
| "message_params (m # ms) =
     bind_t (get_prop m ''role'') (\<lambda>r.
       bind_t (get_prop m ''content'') (\<lambda>c.
         bind_t (message_params ms) (\<lambda>ps. Inr (\<lparr>role_p = r, content_p = c\<rparr> # ps))))"

fun map_messages :: "jsval \<Rightarrow> thrown + ChatMessageParam list" where
  "map_messages (JArr ms) = message_params ms"
| "map_messages JUndefined = Inl (Error ''Cannot read properties of undefined (reading 'map')'')"
| "map_messages JNull = Inl (Error ''Cannot read properties of null (reading 'map')'')"
| "map_messages v = Inl (Error ''attestation.requestParams.messages.map is not a function'')"

text \<open>
  The request built from a parsed attestation, its properties evaluated in the order of
  the object literal.
\<close>

definition replay_request :: "jsval \<Rightarrow> thrown + ChatCompletionRequest" where
  "replay_request attestation' =
     bind_t (get_prop attestation' ''model'') (\<lambda>model'.
       bind_t (get_prop attestation' ''requestParams'') (\<lambda>params.
         bind_t (get_prop params ''messages'') (\<lambda>messages'.
           bind_t (map_messages messages') (\<lambda>mapped.
             bind_t (get_prop params ''maxTokens'') (\<lambda>maxTokens'.
               bind_t (get_prop params ''temperature'') (\<lambda>temperature'.
                 bind_t (get_prop attestation' ''seed'') (\<lambda>seed'.
                   Inr \<lparr>model_q = model', messages_q = mapped,
                        max_tokens = js_or maxTokens' (JNum 1024),
                        temperature_q = js_coalesce temperature' (JNum 0),
                        seed_q = seed', stop_q = JUndefined\<rparr>)))))))"

text \<open>\<^verbatim>\<open>verifySerializedProof\<close>: an instance method of this client.\<close>

definition VerifiableEigenAI_verifySerializedProof_try ::
  "collaborators \<Rightarrow> VerifiableEigenAI \<Rightarrow> SerializedProof
     \<Rightarrow> ChatCompletionRequest list \<times> (thrown + EigenAIVerificationResult)" where
  "VerifiableEigenAI_verifySerializedProof_try env this serialized =
     (case bind_t (JSON_parse env (attestationJson_of serialized)) replay_request of
        Inl e \<Rightarrow> ([], Inl e)
      | Inr request \<Rightarrow>
          ([request],
           bind_t (chat_completions_create env request) (\<lambda>response.
             Inr (compare_output this response (text_of serialized)))))"

definition VerifiableEigenAI_verifySerializedProof ::
  "collaborators \<Rightarrow> VerifiableEigenAI \<Rightarrow> SerializedProof
     \<Rightarrow> ChatCompletionRequest list \<times> (thrown + EigenAIVerificationResult)" where
  "VerifiableEigenAI_verifySerializedProof env this serialized =
     (case VerifiableEigenAI_verifySerializedProof_try env this serialized of
        (sent, Inl e) \<Rightarrow> (sent, Inr (reexecution_failed e))
      | (sent, Inr r) \<Rightarrow> (sent, Inr r))"

definition VerifiableEigenAI_serializeResult ::
  "collaborators \<Rightarrow> EigenAIResult \<Rightarrow> SerializedEigenAIProof" where
  "VerifiableEigenAI_serializeResult env result =
     \<lparr>attestationJson = JSON_stringify env (attestation_js (attestation result)),
      text_se = text_e result, timestamp_se = timestamp_e result,
      model_se = model_e result, provider_se = eigenai\<rparr>"

section \<open>Stub collaborators and sample data for the scenarios\<close>

text \<open>
  Concrete collaborators on which the theorems below are run: a JSON codec that knows the
  texts of the scenarios, a proof check that accepts the sample bundle only, a provider
  that always answers \<^verbatim>\<open>4\<close>, a witness network that returns the bundle it is given,
  and a random number, one half plus \<open>2\<close> to the power \<open>-32\<close> (written as a fraction),
  at which the rounding of the product shows. The codec is handed strings, \<^verbatim>\<open>undefined\<close> and objects only, and
  a value whose text the table does not hold is written as \<^verbatim>\<open>null\<close>. Every text
  outside the table is a syntax error; the only such text in the scenarios is
  \<^verbatim>\<open>undefined\<close>, for which the message is the one V8 gives, and for any other text
  the message is a stand-in.
\<close>

definition sample_proof :: jsval where
  "sample_proof =
     JObj [(''identifier'', JStr ''0x7a8b9c0d1e2f3a4b''), (''signatures'', JArr [JStr ''0xabc123''])]"

definition sample_proof_json :: string where
  "sample_proof_json = ''{\"identifier\":\"0x7a8b9c0d1e2f3a4b\",\"signatures\":[\"0xabc123\"]}''"

definition sample_attestation :: EigenAIAttestation where
  "sample_attestation =
     \<lparr>seed_a = 42, model_a = ''gpt-oss-120b-f16'', requestId = Some ''chatcmpl-1'',
      signatures = None,
      requestParams =
        \<lparr>messages_rp = [\<lparr>role = user, content = ''What is 2 + 2?''\<rparr>],
         temperature_rp = Some 0, maxTokens_rp = Some 1024\<rparr>\<rparr>"

definition sample_attestation_json :: string where
  "sample_attestation_json =
     ''{\"seed\":42,\"model\":\"gpt-oss-120b-f16\",\"requestId\":\"chatcmpl-1\",\"requestParams\":{\"messages\":[{\"role\":\"user\",\"content\":\"What is 2 + 2?\"}],\"temperature\":0,\"maxTokens\":1024}}''"

definition json_texts :: "(string \<times> jsval) list" where
  "json_texts =
     [(sample_proof_json, sample_proof),
      (sample_attestation_json, attestation_js sample_attestation),
      (''{\"id\":\"msg_01\"}'', JObj [(''id'', JStr ''msg_01'')]),
      (''{\"id\":\"msg_02\",\"content\":[{\"type\":\"tool_use\"}]}'',
       JObj [(''id'', JStr ''msg_02''), (''content'', JArr [JObj [(''type'', JStr ''tool_use'')]])]),
      (''{\"id\":\"msg_03\",\"content\":[null]}'',
       JObj [(''id'', JStr ''msg_03''), (''content'', JArr [JNull])]),
      (''{\"model\":\"claude-3-5-sonnet-20241022\",\"max_tokens\":1024,\"messages\":[],\"temperature\":1}'',
       JObj [(''model'', JStr ''claude-3-5-sonnet-20241022''), (''max_tokens'', JNum 1024),
             (''messages'', JArr []), (''temperature'', JNum 1)]),
      (''null'', JNull)]"

fun stub_ToString :: "jsval \<Rightarrow> string" where
  "stub_ToString (JStr s) = s"
| "stub_ToString JUndefined = ''undefined''"
| "stub_ToString JNull = ''null''"
| "stub_ToString (JBool b) = (if b then ''true'' else ''false'')"
| "stub_ToString v = ''[object Object]''"

definition stub_parse :: "jsval \<Rightarrow> thrown + jsval" where
  "stub_parse v =
     (case map_of json_texts (stub_ToString v) of
        Some j \<Rightarrow> Inr j
      | None \<Rightarrow> Inl (Error ([CHR 0x22] @ stub_ToString v @ [CHR 0x22] @ '' is not valid JSON'')))"

definition stub_stringify :: "jsval \<Rightarrow> string" where
  "stub_stringify v =
     (case find (\<lambda>(s, j). j = v) json_texts of Some (s, j) \<Rightarrow> s | None \<Rightarrow> ''null'')"

definition stub_completion :: ChatCompletion where
  "stub_completion =
     \<lparr>id_r = ''chatcmpl-1'', choices = [\<lparr>message = \<lparr>content_m = Some ''4''\<rparr>\<rparr>]\<rparr>"

definition stub_env :: "jsval \<Rightarrow> collaborators" where
  "stub_env witnessed =
     \<lparr>zkFetch = (\<lambda>request. Inr witnessed),
      verifyProof = (\<lambda>p. Inr (p = sample_proof)),
      chat_completions_create = (\<lambda>request. Inr stub_completion),
      JSON_parse = stub_parse,
      JSON_stringify = stub_stringify,
      Math_random = 2147483649 / 4294967296,
      Date_now = 1700000000000\<rparr>"

definition witnessed_response :: "string \<Rightarrow> jsval" where
  "witnessed_response responseJson =
     JObj [(''identifier'', JStr ''0x7a8b9c0d1e2f3a4b''),
           (''extractedParameterValues'', JObj [(''response'', JStr responseJson)])]"

definition proxy_config :: VerifiableClaudeConfig where
  "proxy_config =
     \<lparr>apiKey = ''sk-ant-test'', endpoint = Some ''https://claude-proxy.example/v1'',
      reclaimAppId = ''app-id'', reclaimAppSecret = ''app-secret''\<rparr>"

definition default_config :: VerifiableClaudeConfig where
  "default_config =
     \<lparr>apiKey = ''sk-ant-test'', endpoint = None,
      reclaimAppId = ''app-id'', reclaimAppSecret = ''app-secret''\<rparr>"

definition eigenai_config :: EigenAIConfig where
  "eigenai_config = \<lparr>apiKey = ''eigen-test'', endpoint = None\<rparr>"

definition sample_claude_result :: VerifiableClaudeResult where
  "sample_claude_result =
     \<lparr>text_c = JStr ''The capital of France is Paris.'', proof_c = sample_proof,
      timestamp_c = 1700000000000, model_c = ''claude-3-5-sonnet-20241022'',
      provider_c = reclaim, rawResponse_c = JNull\<rparr>"

definition sample_eigenai_result :: EigenAIResult where
  "sample_eigenai_result =
     \<lparr>text_e = ''4'', attestation = sample_attestation, timestamp_e = 1700000000000,
      model_e = ''gpt-oss-120b-f16'', provider_e = eigenai, rawResponse_e = stub_completion\<rparr>"

definition no_options :: ClaudeGenerateOptions where
  "no_options =
     \<lparr>model = None, messages = None, prompt = None, system = None, maxTokens = None,
      temperature = None, stopSequences = None\<rparr>"

definition no_options_e :: EigenAIGenerateOptions where
  "no_options_e =
     \<lparr>model = None, messages = None, prompt = None, system = None, maxTokens = None,
      temperature = None, seed = None, stop = None\<rparr>"

section \<open>The methods as case distinctions on what the collaborators answer\<close>



lemma binade_least: "- 1022 \<le> binade n x"
  by (induction n) simp_all









lemma get_prop_own_prop: "\<not> nullish v \<Longrightarrow> get_prop v k = Inr (own_prop v k)"
  by (cases v) (simp_all add: nullish_def)

lemma find_text_absent:
  "(\<And>item. item \<in> set items \<Longrightarrow> \<not> nullish item \<and> own_prop item ''type'' \<noteq> JStr ''text'')
   \<Longrightarrow> find_text items = Inr JUndefined"
  by (induction items) (simp_all add: get_prop_own_prop)

lemma message_params_typed: "message_params (map message_js ms) = Inr (map message_param ms)"
  by (induction ms) (simp_all add: message_js_def message_param_def)

lemma replay_request_typed:
  "replay_request (attestation_js a) =
     Inr \<lparr>model_q = JStr (model_a a),
          messages_q = map message_param (messages_rp (requestParams a)),
          max_tokens = JNum (or_number (maxTokens_rp (requestParams a)) 1024),
          temperature_q = JNum (coalesce_number (temperature_rp (requestParams a)) 0),
          seed_q = JNum (seed_a a), stop_q = JUndefined\<rparr>"
  by (cases "requestId a"; cases "signatures a"; cases "temperature_rp (requestParams a)";
      cases "maxTokens_rp (requestParams a)")
     (simp_all add: replay_request_def attestation_js_def optional_field_def message_params_typed
        js_or_def js_coalesce_def nullish_def or_number_def coalesce_number_def)

lemma claude_verify_cases:
  "VerifiableClaude_verify env this result =
     (case verifyProof env (proof_c result) of
        Inl e \<Rightarrow> Inr (verification_failed e)
      | Inr valid \<Rightarrow>
          Inr \<lparr>isValid = valid,
               verifiedEndpoint = (if valid then Some (endpoint_c this @ ''/messages'') else None),
               error = None\<rparr>)"
  by (cases "verifyProof env (proof_c result)")
     (simp_all add: VerifiableClaude_verify_def VerifiableClaude_verify_try_def)

lemma claude_verifySerializedProof_cases:
  "VerifiableClaude_verifySerializedProof env serialized =
     (case JSON_parse env (proofJson_of serialized) of
        Inl e \<Rightarrow> Inr (verification_failed e)
      | Inr p \<Rightarrow>
          (case verifyProof env p of
             Inl e \<Rightarrow> Inr (verification_failed e)
           | Inr valid \<Rightarrow>
               Inr \<lparr>isValid = valid,
                    verifiedEndpoint =
                      (if valid then Some (ANTHROPIC_API_ENDPOINT @ ''/messages'') else None),
                    error = None\<rparr>))"
  by (cases "JSON_parse env (proofJson_of serialized)";
      cases "verifyProof env (projr (JSON_parse env (proofJson_of serialized)))")
     (simp_all add: VerifiableClaude_verifySerializedProof_def
        VerifiableClaude_verifySerializedProof_try_def)

lemma eigenai_verify_cases:
  "VerifiableEigenAI_verify env this result =
     (let request =
            \<lparr>model_q = JStr (model_a (attestation result)),
             messages_q = map message_param (messages_rp (requestParams (attestation result))),
             max_tokens = JNum (or_number (maxTokens_rp (requestParams (attestation result))) 1024),
             temperature_q =
               JNum (coalesce_number (temperature_rp (requestParams (attestation result))) 0),
             seed_q = JNum (seed_a (attestation result)),
             stop_q = JUndefined\<rparr>
      in ([request],
          case chat_completions_create env request of
            Inl e \<Rightarrow> Inr (reexecution_failed e)
          | Inr response \<Rightarrow> Inr (compare_output this response (JStr (text_e result)))))"
  by (simp add: VerifiableEigenAI_verify_def VerifiableEigenAI_verify_try_def Let_def
        split: sum.splits)

lemma eigenai_verifySerializedProof_cases:
  "VerifiableEigenAI_verifySerializedProof env this serialized =
     (case bind_t (JSON_parse env (attestationJson_of serialized)) replay_request of
        Inl e \<Rightarrow> ([], Inr (reexecution_failed e))
      | Inr request \<Rightarrow>
          ([request],
           case chat_completions_create env request of
             Inl e \<Rightarrow> Inr (reexecution_failed e)
           | Inr response \<Rightarrow> Inr (compare_output this response (text_of serialized))))"
  by (simp add: VerifiableEigenAI_verifySerializedProof_def
        VerifiableEigenAI_verifySerializedProof_try_def split: sum.splits)

lemma compare_output_fields:
  "outputMatches (compare_output this response expected) = Some (isValid (compare_output this response expected))"
  "isValid (compare_output this response expected) = (JStr (output_text response) = expected)"
  "reExecutedOutput (compare_output this response expected) = Some (output_text response)"
  "error (compare_output this response expected) = None"
  by (simp_all add: compare_output_def Let_def)

lemmas stub_simps =
  stub_env_def stub_parse_def stub_stringify_def json_texts_def sample_proof_def
  sample_proof_json_def sample_attestation_json_def sample_attestation_def
  stub_completion_def sample_claude_result_def sample_eigenai_result_def
  proxy_config_def default_config_def eigenai_config_def witnessed_response_def

lemma stub_roundtrip_proof:
  "JSON_parse (stub_env w) (JStr (JSON_stringify (stub_env w) (proof_c sample_claude_result)))
     = Inr (proof_c sample_claude_result)"
  by (simp add: stub_simps)

lemma stub_roundtrip_attestation:
  "JSON_parse (stub_env w)
     (JStr (JSON_stringify (stub_env w) (attestation_js (attestation sample_eigenai_result))))
     = Inr (attestation_js (attestation sample_eigenai_result))"
  by (simp add: stub_simps attestation_js_def optional_field_def message_js_def)

lemma eigenai_roundtrip:
  assumes "JSON_parse env (JStr (JSON_stringify env (attestation_js (attestation r))))
             = Inr (attestation_js (attestation r))"
  shows "VerifiableEigenAI_verifySerializedProof env this
           (OfEigenAI (VerifiableEigenAI_serializeResult env r))
         = VerifiableEigenAI_verify env this r"
  using assms
  by (simp add: eigenai_verifySerializedProof_cases eigenai_verify_cases
        VerifiableEigenAI_serializeResult_def replay_request_typed Let_def
        cong: sum.case_cong)

lemma stub_verify:
  "VerifiableEigenAI_verify (stub_env w) (createVerifiableEigenAI eigenai_config)
     (sample_eigenai_result\<lparr>text_e := t\<rparr>)
   = ([\<lparr>model_q = JStr ''gpt-oss-120b-f16'',
        messages_q = [\<lparr>role_p = JStr ''user'', content_p = JStr ''What is 2 + 2?''\<rparr>],
        max_tokens = JNum 1024, temperature_q = JNum 0, seed_q = JNum 42,
        stop_q = JUndefined\<rparr>],
      Inr \<lparr>isValid = (''4'' = t),
           verifiedEndpoint = (if ''4'' = t then Some ''https://eigenai.eigencloud.xyz/v1'' else None),
           error = None, outputMatches = Some (''4'' = t), reExecutedOutput = Some ''4''\<rparr>)"
  by (simp add: eigenai_verify_cases compare_output_def output_text_def or_string_def
        or_number_def coalesce_number_def message_param_def createVerifiableEigenAI_def
        EIGENAI_ENDPOINT_def Let_def stub_simps)

lemma claude_generate_cases:
  "VerifiableClaude_generate env this options =
     (case messages options of
        Some ms \<Rightarrow>
          (let request =
                 \<lparr>url = endpoint_c this @ ''/messages'', http_method = ''POST'',
                  body = JSON_stringify env
                           (claude_body options
                              (or_string (model options) ''claude-3-5-sonnet-20241022'')
                              (or_number (maxTokens options) 1024) ms
                              (coalesce_number (temperature options) 1)),
                  x_api_key = apiKey (config_c this)\<rparr>
           in ([request],
               case VerifiableClaude_generate_try env
                      (or_string (model options) ''claude-3-5-sonnet-20241022'') request of
                 Inl e \<Rightarrow>
                   Inl (Error (''Verifiable generation failed: ''
                               @ message_or e ''Unknown error occurred''))
               | Inr r \<Rightarrow> Inr r))
      | None \<Rightarrow>
          (if or_string (prompt options) [] = []
           then ([], Inl (Error ''Either 'messages' or 'prompt' must be provided''))
           else
             (let request =
                    \<lparr>url = endpoint_c this @ ''/messages'', http_method = ''POST'',
                     body = JSON_stringify env
                              (claude_body options
                                 (or_string (model options) ''claude-3-5-sonnet-20241022'')
                                 (or_number (maxTokens options) 1024)
                                 [\<lparr>role = user, content = or_string (prompt options) []\<rparr>]
                                 (coalesce_number (temperature options) 1)),
                     x_api_key = apiKey (config_c this)\<rparr>
              in ([request],
                  case VerifiableClaude_generate_try env
                         (or_string (model options) ''claude-3-5-sonnet-20241022'') request of
                    Inl e \<Rightarrow>
                      Inl (Error (''Verifiable generation failed: ''
                                  @ message_or e ''Unknown error occurred''))
                  | Inr r \<Rightarrow> Inr r))))"
  by (simp add: VerifiableClaude_generate_def claude_messages_def or_string_def Let_def
        split: option.splits)

lemma generate_try_without_text:
  assumes witnessed: "zkFetch env request = Inr bundle"
    and returned: "truthy bundle"
    and extracted: "truthy (opt_get (own_prop bundle ''extractedParameterValues'') ''response'')"
    and parsed: "JSON_parse env (opt_get (own_prop bundle ''extractedParameterValues'') ''response'')
                   = Inr (JObj props)"
    and no_text:
      "(\<forall>items. own_prop (JObj props) ''content'' \<noteq> JArr items)
       \<or> (\<exists>items. own_prop (JObj props) ''content'' = JArr items
             \<and> (\<forall>item \<in> set items. \<not> nullish item \<and> own_prop item ''type'' \<noteq> JStr ''text''))"
  shows "VerifiableClaude_generate_try env model' request
           = Inr \<lparr>text_c = JStr [], proof_c = bundle, timestamp_c = Date_now env,
                  model_c = model', provider_c = reclaim, rawResponse_c = JObj props\<rparr>"
proof -
  have read_bundle: "get_prop bundle ''extractedParameterValues''
                  = Inr (own_prop bundle ''extractedParameterValues'')"
    using returned by (intro get_prop_own_prop) (auto simp add: nullish_def)
  have content: "get_prop (JObj props) ''content'' = Inr (own_prop (JObj props) ''content'')"
    by (simp del: own_prop.simps)
  from no_text have empty_text:
    "(case own_prop (JObj props) ''content'' of
        JArr items \<Rightarrow>
          bind_t (find_text items)
            (\<lambda>textContent. Inr (js_or (opt_get textContent ''text'') (JStr [])))
      | _ \<Rightarrow> Inr (JStr []))
     = Inr (JStr [])"
  proof
    assume "\<forall>items. own_prop (JObj props) ''content'' \<noteq> JArr items"
    then show ?thesis
      by (cases "own_prop (JObj props) ''content''") (simp_all del: own_prop.simps)
  next
    assume "\<exists>items. own_prop (JObj props) ''content'' = JArr items
             \<and> (\<forall>item \<in> set items. \<not> nullish item \<and> own_prop item ''type'' \<noteq> JStr ''text'')"
    then obtain items where items: "own_prop (JObj props) ''content'' = JArr items"
      and none: "\<And>item. item \<in> set items \<Longrightarrow> \<not> nullish item \<and> own_prop item ''type'' \<noteq> JStr ''text''"
      by blast
    have "find_text items = Inr JUndefined"
      using none by (rule find_text_absent)
    then show ?thesis
      by (simp add: items js_or_def opt_get_def nullish_def del: own_prop.simps)
  qed
  show ?thesis
    unfolding VerifiableClaude_generate_try_def
    by (simp add: witnessed returned read_bundle extracted parsed content empty_text Let_def
          del: own_prop.simps get_prop.simps)
qed

lemma eigenai_generate_sent:
  "fst (VerifiableEigenAI_generate env this options) =
     (case eigenai_messages options of
        Inl e \<Rightarrow> []
      | Inr ms \<Rightarrow>
          [\<lparr>model_q = JStr (or_string (model options) DEFAULT_MODEL),
            messages_q = map message_param ms,
            max_tokens = JNum (or_number (maxTokens options) 1024),
            temperature_q = JNum (coalesce_number (temperature options) 0),
            seed_q = JNum (case seed options of Some s \<Rightarrow> s | None \<Rightarrow> generateSeed env),
            stop_q = (case stop options of None \<Rightarrow> JUndefined | Some xs \<Rightarrow> strings_js xs)\<rparr>])"
  by (simp add: VerifiableEigenAI_generate_def Let_def split: sum.splits)







lemma stub_dispatched:
  "fst (VerifiableClaude_generate (stub_env w) (createVerifiableClaude default_config)
          (no_options\<lparr>prompt := Some ''Hello''\<rparr>))
   = [hd (fst (VerifiableClaude_generate (stub_env w) (createVerifiableClaude default_config)
                 (no_options\<lparr>prompt := Some ''Hello''\<rparr>)))]"
  by (simp add: claude_generate_cases no_options_def or_string_def Let_def)

section \<open>The claims\<close>

text \<open>
  Claim C1, round-trip fidelity, as amended. Take a result whose payload survives
  \<^verbatim>\<open>JSON.parse(JSON.stringify(...))\<close>. For the re-execution client, verifying the
  serialized form gives what \<^verbatim>\<open>verify\<close> gives on the result in memory: the same
  request to the provider and the same outcome, field by field. For the transcript-proof
  client the two outcomes agree on \<^verbatim>\<open>isValid\<close> and \<^verbatim>\<open>error\<close>; they agree on
  \<^verbatim>\<open>verifiedEndpoint\<close> exactly when the proof is invalid or the client's endpoint is the
  default one, because the static method names the default endpoint.
\<close>

theorem roundtrip_verification:
  "(JSON_parse env (JStr (JSON_stringify env (attestation_js (attestation re))))
      = Inr (attestation_js (attestation re))
    \<longrightarrow> VerifiableEigenAI_verifySerializedProof env eigen
          (OfEigenAI (VerifiableEigenAI_serializeResult env re))
        = VerifiableEigenAI_verify env eigen re)
   \<and> (JSON_parse env (JStr (JSON_stringify env (proof_c rc))) = Inr (proof_c rc)
    \<longrightarrow> (\<exists>v s. VerifiableClaude_verify env claude rc = Inr v
          \<and> VerifiableClaude_verifySerializedProof env
                (OfClaude (VerifiableClaude_serializeResult env rc)) = Inr s
          \<and> isValid s = isValid v \<and> error s = error v
          \<and> (verifiedEndpoint s = verifiedEndpoint v
               \<longleftrightarrow> (\<not> isValid v \<or> endpoint_c claude = ANTHROPIC_API_ENDPOINT))))"
proof (intro conjI impI)
  assume "JSON_parse env (JStr (JSON_stringify env (attestation_js (attestation re))))
            = Inr (attestation_js (attestation re))"
  then show "VerifiableEigenAI_verifySerializedProof env eigen
               (OfEigenAI (VerifiableEigenAI_serializeResult env re))
             = VerifiableEigenAI_verify env eigen re"
    by (simp add: eigenai_verifySerializedProof_cases eigenai_verify_cases
          VerifiableEigenAI_serializeResult_def replay_request_typed Let_def
          cong: sum.case_cong)
next
  assume rt: "JSON_parse env (JStr (JSON_stringify env (proof_c rc))) = Inr (proof_c rc)"
  show "\<exists>v s. VerifiableClaude_verify env claude rc = Inr v
          \<and> VerifiableClaude_verifySerializedProof env
                (OfClaude (VerifiableClaude_serializeResult env rc)) = Inr s
          \<and> isValid s = isValid v \<and> error s = error v
          \<and> (verifiedEndpoint s = verifiedEndpoint v
               \<longleftrightarrow> (\<not> isValid v \<or> endpoint_c claude = ANTHROPIC_API_ENDPOINT))"
  proof (cases "verifyProof env (proof_c rc)")
    case (Inl e)
    with rt show ?thesis
      by (simp add: claude_verify_cases claude_verifySerializedProof_cases
            VerifiableClaude_serializeResult_def verification_failed_def)
  next
    case (Inr valid)
    with rt show ?thesis
      by (auto simp add: claude_verify_cases claude_verifySerializedProof_cases
            VerifiableClaude_serializeResult_def)
  qed
qed

text \<open>
  C1 at the sample data: the stub codec round-trips both payloads, and the two ways of
  verifying agree for the re-execution client and for a transcript-proof client with the
  default endpoint.
\<close>

theorem roundtrip_verification_witness:
  "VerifiableEigenAI_verifySerializedProof (stub_env JNull) (createVerifiableEigenAI eigenai_config)
     (OfEigenAI (VerifiableEigenAI_serializeResult (stub_env JNull) sample_eigenai_result))
   = VerifiableEigenAI_verify (stub_env JNull) (createVerifiableEigenAI eigenai_config)
       sample_eigenai_result
   \<and> VerifiableClaude_verifySerializedProof (stub_env JNull)
       (OfClaude (VerifiableClaude_serializeResult (stub_env JNull) sample_claude_result))
     = VerifiableClaude_verify (stub_env JNull) (createVerifiableClaude default_config)
         sample_claude_result"
proof -
  have endpoint: "endpoint_c (createVerifiableClaude default_config) = ANTHROPIC_API_ENDPOINT"
    by (simp add: createVerifiableClaude_def default_config_def or_string_def)
  show ?thesis
    using roundtrip_verification
            [of "stub_env JNull" sample_eigenai_result "createVerifiableEigenAI eigenai_config"
                sample_claude_result "createVerifiableClaude default_config"]
          stub_roundtrip_proof [of JNull] stub_roundtrip_attestation [of JNull] endpoint
    by (auto simp add: VerificationResult.equality)
qed

text \<open>
  C1 as stated fails for a transcript-proof client configured with another endpoint: on
  the same valid result, \<^verbatim>\<open>verify\<close> reports the client's endpoint and
  \<^verbatim>\<open>verifySerializedProof\<close> of the serialized result reports the default endpoint.
\<close>

theorem roundtrip_verification_counterexample:
  "VerifiableClaude_verify (stub_env JNull) (createVerifiableClaude proxy_config)
     sample_claude_result
   = Inr \<lparr>isValid = True,
          verifiedEndpoint = Some ''https://claude-proxy.example/v1/messages'',
          error = None\<rparr>
   \<and> VerifiableClaude_verifySerializedProof (stub_env JNull)
       (OfClaude (VerifiableClaude_serializeResult (stub_env JNull) sample_claude_result))
     = Inr \<lparr>isValid = True,
            verifiedEndpoint = Some ''https://api.anthropic.com/v1/messages'',
            error = None\<rparr>"
  by (simp add: claude_verify_cases claude_verifySerializedProof_cases
        VerifiableClaude_serializeResult_def createVerifiableClaude_def or_string_def
        ANTHROPIC_API_ENDPOINT_def stub_simps)

text \<open>
  Claim C2, as amended. \<^verbatim>\<open>verify\<close> always returns, and its \<^verbatim>\<open>verifiedEndpoint\<close> is the
  endpoint of the client followed by \<^verbatim>\<open>/messages\<close> when \<^verbatim>\<open>isValid\<close> is true and
  undefined when it is false; the endpoint of a client is the configured one, or the
  default when none or the empty string is configured. The static
  \<^verbatim>\<open>verifySerializedProof\<close> always returns, and its \<^verbatim>\<open>verifiedEndpoint\<close> is the
  default \<^verbatim>\<open>https://api.anthropic.com/v1/messages\<close> when \<^verbatim>\<open>isValid\<close> is true,
  whatever any client was configured with, and undefined when it is false.
\<close>

theorem verified_endpoint_of_transcript_proofs:
  "(\<exists>r. VerifiableClaude_verify env this result = Inr r
        \<and> verifiedEndpoint r = (if isValid r then Some (endpoint_c this @ ''/messages'') else None))
   \<and> (\<exists>r. VerifiableClaude_verifySerializedProof env serialized = Inr r
        \<and> verifiedEndpoint r
            = (if isValid r then Some ''https://api.anthropic.com/v1/messages'' else None))
   \<and> endpoint_c (createVerifiableClaude config)
       = (case endpoint config of None \<Rightarrow> ''https://api.anthropic.com/v1''
          | Some given \<Rightarrow> (if given = [] then ''https://api.anthropic.com/v1'' else given))"
proof (intro conjI)
  show "\<exists>r. VerifiableClaude_verify env this result = Inr r
        \<and> verifiedEndpoint r = (if isValid r then Some (endpoint_c this @ ''/messages'') else None)"
    by (cases "verifyProof env (proof_c result)")
       (simp_all add: claude_verify_cases verification_failed_def)
  show "\<exists>r. VerifiableClaude_verifySerializedProof env serialized = Inr r
        \<and> verifiedEndpoint r
            = (if isValid r then Some ''https://api.anthropic.com/v1/messages'' else None)"
    by (cases "JSON_parse env (proofJson_of serialized)";
        cases "verifyProof env (projr (JSON_parse env (proofJson_of serialized)))")
       (simp_all add: claude_verifySerializedProof_cases verification_failed_def
          ANTHROPIC_API_ENDPOINT_def)
  show "endpoint_c (createVerifiableClaude config)
       = (case endpoint config of None \<Rightarrow> ''https://api.anthropic.com/v1''
          | Some given \<Rightarrow> (if given = [] then ''https://api.anthropic.com/v1'' else given))"
    by (simp add: createVerifiableClaude_def or_string_def ANTHROPIC_API_ENDPOINT_def)
qed

text \<open>
  C2 on the failing side, for a client with a non-default endpoint: a bundle the proof
  check rejects and a payload that is not JSON (the text \<^verbatim>\<open>undefined\<close>) both give \<^verbatim>\<open>isValid\<close> false with no
  \<^verbatim>\<open>verifiedEndpoint\<close>.
\<close>

theorem verified_endpoint_witness:
  "VerifiableClaude_verify (stub_env JNull) (createVerifiableClaude proxy_config)
     (sample_claude_result\<lparr>proof_c := JObj [(''identifier'', JStr ''0x00'')]\<rparr>)
   = Inr \<lparr>isValid = False, verifiedEndpoint = None, error = None\<rparr>
   \<and> VerifiableClaude_verifySerializedProof (stub_env JNull)
       (OfClaude \<lparr>proofJson = ''undefined'', text_sc = JStr ''Paris.'',
                 timestamp_sc = 1700000000000, model_sc = ''claude-3-5-sonnet-20241022'',
                 provider_sc = reclaim\<rparr>)
     = Inr \<lparr>isValid = False, verifiedEndpoint = None,
            error = Some ''\"undefined\" is not valid JSON''\<rparr>
   \<and> endpoint_c (createVerifiableClaude proxy_config) = ''https://claude-proxy.example/v1''"
  using verified_endpoint_of_transcript_proofs
          [of "stub_env JNull" "createVerifiableClaude proxy_config"
              "sample_claude_result\<lparr>proof_c := JObj [(''identifier'', JStr ''0x00'')]\<rparr>"
              "OfClaude \<lparr>proofJson = ''undefined'', text_sc = JStr ''Paris.'',
                 timestamp_sc = 1700000000000, model_sc = ''claude-3-5-sonnet-20241022'',
                 provider_sc = reclaim\<rparr>"
              proxy_config]
  by (simp add: claude_verify_cases claude_verifySerializedProof_cases
        verification_failed_def createVerifiableClaude_def or_string_def stub_simps)

text \<open>
  C2 as stated fails for \<^verbatim>\<open>verifySerializedProof\<close>: where the client is configured
  with \<^verbatim>\<open>https://claude-proxy.example/v1\<close>, a valid serialized proof is reported with
  the default endpoint, not with the configured one.
\<close>

theorem verified_endpoint_counterexample:
  "VerifiableClaude_verifySerializedProof (stub_env JNull)
     (OfClaude \<lparr>proofJson = sample_proof_json, text_sc = JStr ''Paris.'',
               timestamp_sc = 1700000000000, model_sc = ''claude-3-5-sonnet-20241022'',
               provider_sc = reclaim\<rparr>)
   = Inr \<lparr>isValid = True,
          verifiedEndpoint = Some ''https://api.anthropic.com/v1/messages'',
          error = None\<rparr>
   \<and> Some ''https://api.anthropic.com/v1/messages''
       \<noteq> Some (endpoint_c (createVerifiableClaude proxy_config) @ ''/messages'')"
  by (simp add: claude_verifySerializedProof_cases createVerifiableClaude_def or_string_def
        ANTHROPIC_API_ENDPOINT_def stub_simps)

text \<open>
  Claim C3. Every call of \<^verbatim>\<open>verify\<close> and of \<^verbatim>\<open>verifySerializedProof\<close> of the
  re-execution client returns a result, on the path through the comparison and on the
  path through the \<^verbatim>\<open>catch\<close> block alike, and in that result \<^verbatim>\<open>outputMatches\<close> is
  set and equal to \<^verbatim>\<open>isValid\<close>.
\<close>

theorem isValid_equals_outputMatches:
  "(\<exists>sent r. VerifiableEigenAI_verify env this result = (sent, Inr r)
        \<and> outputMatches r = Some (isValid r))
   \<and> (\<exists>sent r. VerifiableEigenAI_verifySerializedProof env this serialized = (sent, Inr r)
        \<and> outputMatches r = Some (isValid r))"
  by (simp add: eigenai_verify_cases eigenai_verifySerializedProof_cases Let_def
        compare_output_fields reexecution_failed_def split: sum.splits)

text \<open>
  C3 at the sample data: a result whose text differs from the re-executed output, and
  the serialized sample result.
\<close>

theorem isValid_equals_outputMatches_witness:
  "VerifiableEigenAI_verify (stub_env JNull) (createVerifiableEigenAI eigenai_config)
     (sample_eigenai_result\<lparr>text_e := ''5''\<rparr>)
   = ([\<lparr>model_q = JStr ''gpt-oss-120b-f16'',
        messages_q = [\<lparr>role_p = JStr ''user'', content_p = JStr ''What is 2 + 2?''\<rparr>],
        max_tokens = JNum 1024, temperature_q = JNum 0, seed_q = JNum 42,
        stop_q = JUndefined\<rparr>],
      Inr \<lparr>isValid = False, verifiedEndpoint = None, error = None,
           outputMatches = Some False, reExecutedOutput = Some ''4''\<rparr>)
   \<and> snd (VerifiableEigenAI_verifySerializedProof (stub_env JNull)
            (createVerifiableEigenAI eigenai_config)
            (OfEigenAI (VerifiableEigenAI_serializeResult (stub_env JNull) sample_eigenai_result)))
     = Inr \<lparr>isValid = True, verifiedEndpoint = Some ''https://eigenai.eigencloud.xyz/v1'',
            error = None, outputMatches = Some True, reExecutedOutput = Some ''4''\<rparr>"
proof -
  have same: "sample_eigenai_result\<lparr>text_e := ''4''\<rparr> = sample_eigenai_result"
    by (simp add: sample_eigenai_result_def)
  show ?thesis
    using isValid_equals_outputMatches
            [of "stub_env JNull" "createVerifiableEigenAI eigenai_config"
                "sample_eigenai_result\<lparr>text_e := ''5''\<rparr>"
                "OfEigenAI (VerifiableEigenAI_serializeResult (stub_env JNull)
                   sample_eigenai_result)"]
          stub_verify [of JNull "''5''"] stub_verify [of JNull "''4''"]
    by (simp add: eigenai_roundtrip [OF stub_roundtrip_attestation] same)
qed



text \<open>
  Claim C5, as amended. The four verification methods (\<^verbatim>\<open>verify\<close> and
  \<^verbatim>\<open>verifySerializedProof\<close> of both clients) return a result on every input and for
  every behaviour of the collaborators: the promise is never rejected. Whenever a
  collaborator throws \<open>e\<close> (the proof check, \<^verbatim>\<open>JSON.parse\<close> on the serialized
  payload, the property reads on a parsed attestation of the wrong shape, the provider
  during re-execution), the result has \<^verbatim>\<open>isValid\<close> false, no \<^verbatim>\<open>verifiedEndpoint\<close>,
  and \<^verbatim>\<open>error\<close> set to \<open>message_or e\<close>: the message \<open>m\<close> of the exception when it is
  an \<^verbatim>\<open>Error\<close> with message \<open>m\<close>, and the fixed text \<^verbatim>\<open>Verification failed\<close> when
  the thrown value is not an \<^verbatim>\<open>Error\<close>, whatever it carries (the last two conjuncts).
  The re-execution client also sets \<^verbatim>\<open>outputMatches\<close> to false.
\<close>

theorem verification_never_throws:
  "(\<exists>r. VerifiableClaude_verify env claude result = Inr r)
   \<and> (\<exists>r. VerifiableClaude_verifySerializedProof env serialized = Inr r)
   \<and> (\<exists>sent r. VerifiableEigenAI_verify env eigen result_e = (sent, Inr r))
   \<and> (\<exists>sent r. VerifiableEigenAI_verifySerializedProof env eigen serialized = (sent, Inr r))
   \<and> (verifyProof env (proof_c result) = Inl e
        \<longrightarrow> VerifiableClaude_verify env claude result
            = Inr \<lparr>isValid = False, verifiedEndpoint = None,
                   error = Some (message_or e ''Verification failed'')\<rparr>)
   \<and> (JSON_parse env (proofJson_of serialized) = Inl e
        \<longrightarrow> VerifiableClaude_verifySerializedProof env serialized
            = Inr \<lparr>isValid = False, verifiedEndpoint = None,
                   error = Some (message_or e ''Verification failed'')\<rparr>)
   \<and> (JSON_parse env (proofJson_of serialized) = Inr parsed \<and> verifyProof env parsed = Inl e
        \<longrightarrow> VerifiableClaude_verifySerializedProof env serialized
            = Inr \<lparr>isValid = False, verifiedEndpoint = None,
                   error = Some (message_or e ''Verification failed'')\<rparr>)
   \<and> (fst (VerifiableEigenAI_verify env eigen result_e) = [request]
        \<and> chat_completions_create env request = Inl e
        \<longrightarrow> snd (VerifiableEigenAI_verify env eigen result_e)
            = Inr \<lparr>isValid = False, verifiedEndpoint = None,
                   error = Some (message_or e ''Verification failed''),
                   outputMatches = Some False, reExecutedOutput = None\<rparr>)
   \<and> (JSON_parse env (attestationJson_of serialized) = Inl e
        \<longrightarrow> VerifiableEigenAI_verifySerializedProof env eigen serialized
            = ([], Inr \<lparr>isValid = False, verifiedEndpoint = None,
                        error = Some (message_or e ''Verification failed''),
                        outputMatches = Some False, reExecutedOutput = None\<rparr>))
   \<and> (JSON_parse env (attestationJson_of serialized) = Inr parsed
        \<and> replay_request parsed = Inl e
        \<longrightarrow> VerifiableEigenAI_verifySerializedProof env eigen serialized
            = ([], Inr \<lparr>isValid = False, verifiedEndpoint = None,
                        error = Some (message_or e ''Verification failed''),
                        outputMatches = Some False, reExecutedOutput = None\<rparr>))
   \<and> (fst (VerifiableEigenAI_verifySerializedProof env eigen serialized) = [request]
        \<and> chat_completions_create env request = Inl e
        \<longrightarrow> snd (VerifiableEigenAI_verifySerializedProof env eigen serialized)
            = Inr \<lparr>isValid = False, verifiedEndpoint = None,
                   error = Some (message_or e ''Verification failed''),
                   outputMatches = Some False, reExecutedOutput = None\<rparr>)
   \<and> message_or (Error m) ''Verification failed'' = m
   \<and> message_or (Thrown v) ''Verification failed'' = ''Verification failed''"
proof (intro conjI impI)
  show "\<exists>r. VerifiableClaude_verify env claude result = Inr r"
    by (simp add: claude_verify_cases split: sum.split)
  show "\<exists>r. VerifiableClaude_verifySerializedProof env serialized = Inr r"
    by (simp add: claude_verifySerializedProof_cases split: sum.split)
  show "\<exists>sent r. VerifiableEigenAI_verify env eigen result_e = (sent, Inr r)"
    by (simp add: eigenai_verify_cases Let_def split: sum.split)
  show "\<exists>sent r. VerifiableEigenAI_verifySerializedProof env eigen serialized = (sent, Inr r)"
    by (simp add: eigenai_verifySerializedProof_cases split: sum.split)
  show "VerifiableClaude_verify env claude result
          = Inr \<lparr>isValid = False, verifiedEndpoint = None,
                 error = Some (message_or e ''Verification failed'')\<rparr>"
    if "verifyProof env (proof_c result) = Inl e"
    using that by (simp add: claude_verify_cases verification_failed_def)
  show "VerifiableClaude_verifySerializedProof env serialized
          = Inr \<lparr>isValid = False, verifiedEndpoint = None,
                 error = Some (message_or e ''Verification failed'')\<rparr>"
    if "JSON_parse env (proofJson_of serialized) = Inl e"
    using that by (simp add: claude_verifySerializedProof_cases verification_failed_def)
  show "VerifiableClaude_verifySerializedProof env serialized
          = Inr \<lparr>isValid = False, verifiedEndpoint = None,
                 error = Some (message_or e ''Verification failed'')\<rparr>"
    if "JSON_parse env (proofJson_of serialized) = Inr parsed \<and> verifyProof env parsed = Inl e"
    using that by (simp add: claude_verifySerializedProof_cases verification_failed_def)
  show "snd (VerifiableEigenAI_verify env eigen result_e)
          = Inr \<lparr>isValid = False, verifiedEndpoint = None,
                 error = Some (message_or e ''Verification failed''),
                 outputMatches = Some False, reExecutedOutput = None\<rparr>"
    if "fst (VerifiableEigenAI_verify env eigen result_e) = [request]
        \<and> chat_completions_create env request = Inl e"
    using that by (auto simp add: eigenai_verify_cases Let_def reexecution_failed_def)
  show "VerifiableEigenAI_verifySerializedProof env eigen serialized
          = ([], Inr \<lparr>isValid = False, verifiedEndpoint = None,
                      error = Some (message_or e ''Verification failed''),
                      outputMatches = Some False, reExecutedOutput = None\<rparr>)"
    if "JSON_parse env (attestationJson_of serialized) = Inl e"
    using that by (simp add: eigenai_verifySerializedProof_cases reexecution_failed_def)
  show "VerifiableEigenAI_verifySerializedProof env eigen serialized
          = ([], Inr \<lparr>isValid = False, verifiedEndpoint = None,
                      error = Some (message_or e ''Verification failed''),
                      outputMatches = Some False, reExecutedOutput = None\<rparr>)"
    if "JSON_parse env (attestationJson_of serialized) = Inr parsed
        \<and> replay_request parsed = Inl e"
    using that by (simp add: eigenai_verifySerializedProof_cases reexecution_failed_def)
  show "snd (VerifiableEigenAI_verifySerializedProof env eigen serialized)
          = Inr \<lparr>isValid = False, verifiedEndpoint = None,
                 error = Some (message_or e ''Verification failed''),
                 outputMatches = Some False, reExecutedOutput = None\<rparr>"
    if "fst (VerifiableEigenAI_verifySerializedProof env eigen serialized) = [request]
        \<and> chat_completions_create env request = Inl e"
    using that
    by (cases "bind_t (JSON_parse env (attestationJson_of serialized)) replay_request")
       (auto simp add: eigenai_verifySerializedProof_cases reexecution_failed_def)
  show "message_or (Error m) ''Verification failed'' = m"
    by simp
  show "message_or (Thrown v) ''Verification failed'' = ''Verification failed''"
    by simp
qed

text \<open>
  C5 at a proof check that throws an \<^verbatim>\<open>Error\<close>, at a payload that is not JSON (the
  text \<^verbatim>\<open>undefined\<close>), and at a provider that throws an \<^verbatim>\<open>Error\<close>.
\<close>

theorem verification_never_throws_witness:
  "VerifiableClaude_verify
     ((stub_env JNull)\<lparr>verifyProof := \<lambda>p. Inl (Error ''Signature check failed'')\<rparr>)
     (createVerifiableClaude default_config) sample_claude_result
   = Inr \<lparr>isValid = False, verifiedEndpoint = None,
          error = Some ''Signature check failed''\<rparr>
   \<and> VerifiableClaude_verifySerializedProof (stub_env JNull)
       (OfClaude \<lparr>proofJson = ''undefined'', text_sc = JStr ''Paris.'',
                 timestamp_sc = 1700000000000, model_sc = ''claude-3-5-sonnet-20241022'',
                 provider_sc = reclaim\<rparr>)
     = Inr \<lparr>isValid = False, verifiedEndpoint = None,
            error = Some ''\"undefined\" is not valid JSON''\<rparr>
   \<and> VerifiableEigenAI_verify
       ((stub_env JNull)
          \<lparr>chat_completions_create := \<lambda>request. Inl (Error ''503 Service Unavailable'')\<rparr>)
       (createVerifiableEigenAI eigenai_config) sample_eigenai_result
     = ([\<lparr>model_q = JStr ''gpt-oss-120b-f16'',
          messages_q = [\<lparr>role_p = JStr ''user'', content_p = JStr ''What is 2 + 2?''\<rparr>],
          max_tokens = JNum 1024, temperature_q = JNum 0, seed_q = JNum 42,
          stop_q = JUndefined\<rparr>],
        Inr \<lparr>isValid = False, verifiedEndpoint = None,
             error = Some ''503 Service Unavailable'',
             outputMatches = Some False, reExecutedOutput = None\<rparr>)"
proof -
  let ?rejecting = "(stub_env JNull)\<lparr>verifyProof := \<lambda>p. Inl (Error ''Signature check failed'')\<rparr>"
  let ?down = "(stub_env JNull)
          \<lparr>chat_completions_create := \<lambda>request. Inl (Error ''503 Service Unavailable'')\<rparr>"
  let ?malformed = "OfClaude \<lparr>proofJson = ''undefined'', text_sc = JStr ''Paris.'',
                 timestamp_sc = 1700000000000, model_sc = ''claude-3-5-sonnet-20241022'',
                 provider_sc = reclaim\<rparr>"
  let ?request = "\<lparr>model_q = JStr ''gpt-oss-120b-f16'',
          messages_q = [\<lparr>role_p = JStr ''user'', content_p = JStr ''What is 2 + 2?''\<rparr>],
          max_tokens = JNum 1024, temperature_q = JNum 0, seed_q = JNum 42,
          stop_q = JUndefined\<rparr>"
  have rejected: "verifyProof ?rejecting (proof_c sample_claude_result)
                  = Inl (Error ''Signature check failed'')"
    by (simp add: stub_env_def)
  have not_json: "JSON_parse (stub_env JNull) (proofJson_of ?malformed)
                  = Inl (Error ''\"undefined\" is not valid JSON'')"
    by (simp add: stub_simps)
  have sent: "fst (VerifiableEigenAI_verify ?down (createVerifiableEigenAI eigenai_config)
                     sample_eigenai_result) = [?request]"
    by (simp add: eigenai_verify_cases or_number_def coalesce_number_def message_param_def
          Let_def sample_eigenai_result_def sample_attestation_def)
  have unavailable: "chat_completions_create ?down ?request = Inl (Error ''503 Service Unavailable'')"
    by (simp add: stub_env_def)
  have claude: "VerifiableClaude_verify ?rejecting (createVerifiableClaude default_config)
                  sample_claude_result
                = Inr \<lparr>isValid = False, verifiedEndpoint = None,
                       error = Some ''Signature check failed''\<rparr>"
    using verification_never_throws
            [of ?rejecting "createVerifiableClaude default_config" sample_claude_result
                ?malformed "createVerifiableEigenAI eigenai_config" sample_eigenai_result
                "Error ''Signature check failed''"]
          rejected
    by simp
  have serialized: "VerifiableClaude_verifySerializedProof (stub_env JNull) ?malformed
                = Inr \<lparr>isValid = False, verifiedEndpoint = None,
                       error = Some ''\"undefined\" is not valid JSON''\<rparr>"
    using verification_never_throws
            [of "stub_env JNull" "createVerifiableClaude default_config" sample_claude_result
                ?malformed "createVerifiableEigenAI eigenai_config" sample_eigenai_result
                "Error ''\"undefined\" is not valid JSON''"]
          not_json
    by simp
  have eigen: "snd (VerifiableEigenAI_verify ?down (createVerifiableEigenAI eigenai_config)
                      sample_eigenai_result)
               = Inr \<lparr>isValid = False, verifiedEndpoint = None,
                      error = Some ''503 Service Unavailable'',
                      outputMatches = Some False, reExecutedOutput = None\<rparr>"
    using verification_never_throws
            [of ?down "createVerifiableClaude default_config" sample_claude_result
                ?malformed "createVerifiableEigenAI eigenai_config" sample_eigenai_result
                "Error ''503 Service Unavailable''" JNull ?request]
          sent unavailable
    by simp
  show ?thesis
    using claude serialized sent eigen by (simp add: prod_eq_iff)
qed

text \<open>
  C5 as stated fails where the exception is not an \<^verbatim>\<open>Error\<close>: a proof check that
  throws the string \<^verbatim>\<open>Signature check failed\<close>, and a provider that throws the plain
  object \<^verbatim>\<open>{message: "429 rate limited"}\<close>, both give the \<^verbatim>\<open>error\<close>
  \<^verbatim>\<open>Verification failed\<close>, not the message that was thrown.
\<close>

theorem verification_never_throws_counterexample:
  "VerifiableClaude_verify
     ((stub_env JNull)\<lparr>verifyProof := \<lambda>p. Inl (Thrown (JStr ''Signature check failed''))\<rparr>)
     (createVerifiableClaude default_config) sample_claude_result
   = Inr \<lparr>isValid = False, verifiedEndpoint = None, error = Some ''Verification failed''\<rparr>
   \<and> snd (VerifiableEigenAI_verify
            ((stub_env JNull)
               \<lparr>chat_completions_create :=
                  \<lambda>request. Inl (Thrown (JObj [(''message'', JStr ''429 rate limited'')]))\<rparr>)
            (createVerifiableEigenAI eigenai_config) sample_eigenai_result)
     = Inr \<lparr>isValid = False, verifiedEndpoint = None, error = Some ''Verification failed'',
            outputMatches = Some False, reExecutedOutput = None\<rparr>"
  by (simp add: claude_verify_cases eigenai_verify_cases verification_failed_def
        reexecution_failed_def Let_def stub_env_def)

text \<open>
  Claim C6, as amended. A serialized proof of the other strategy is never reported valid,
  but no provider tag is checked and there is no mismatch error: the verifier reads the
  payload field of its own strategy, which the other variant does not have, so
  \<^verbatim>\<open>JSON.parse(undefined)\<close> throws, and the result is the one of the \<^verbatim>\<open>catch\<close>
  block. Given that \<^verbatim>\<open>JSON.parse(undefined)\<close> throws \<open>e\<close>, the re-execution verifier
  sends no request and returns \<^verbatim>\<open>isValid\<close> false, \<^verbatim>\<open>outputMatches\<close> false and the
  message of \<open>e\<close> as \<^verbatim>\<open>error\<close>; the transcript-proof verifier returns
  \<^verbatim>\<open>isValid\<close> false and the message of \<open>e\<close> as \<^verbatim>\<open>error\<close>.
\<close>

theorem other_strategy_is_never_valid:
  "JSON_parse env JUndefined = Inl e
   \<Longrightarrow> VerifiableEigenAI_verifySerializedProof env eigen (OfClaude claude_proof)
       = ([], Inr \<lparr>isValid = False, verifiedEndpoint = None,
                   error = Some (message_or e ''Verification failed''),
                   outputMatches = Some False, reExecutedOutput = None\<rparr>)
     \<and> VerifiableClaude_verifySerializedProof env (OfEigenAI eigenai_proof)
       = Inr \<lparr>isValid = False, verifiedEndpoint = None,
              error = Some (message_or e ''Verification failed'')\<rparr>"
  by (simp add: eigenai_verifySerializedProof_cases claude_verifySerializedProof_cases
        reexecution_failed_def verification_failed_def)

text \<open>
  C6 at the stub codec, which answers \<^verbatim>\<open>undefined\<close> as V8 does: a serialized
  re-execution result handed to the transcript-proof verifier.
\<close>

theorem other_strategy_witness:
  "JSON_parse (stub_env JNull) JUndefined = Inl (Error ''\"undefined\" is not valid JSON'')
   \<and> VerifiableClaude_verifySerializedProof (stub_env JNull)
       (OfEigenAI (VerifiableEigenAI_serializeResult (stub_env JNull) sample_eigenai_result))
     = Inr \<lparr>isValid = False, verifiedEndpoint = None,
            error = Some ''\"undefined\" is not valid JSON''\<rparr>"
proof -
  have undefined: "JSON_parse (stub_env JNull) JUndefined = Inl (Error ''\"undefined\" is not valid JSON'')"
    by (simp add: stub_simps)
  show ?thesis
    using other_strategy_is_never_valid [OF undefined] undefined by simp
qed

text \<open>
  C6 as stated fails: a serialized transcript proof handed to the re-execution verifier
  yields the syntax error of \<^verbatim>\<open>JSON.parse\<close> as its \<^verbatim>\<open>error\<close>, and the whole result
  is the one that a re-execution proof whose \<^verbatim>\<open>attestationJson\<close> is the malformed text
  \<^verbatim>\<open>undefined\<close> yields: nothing in it tells a provider mismatch from a malformed
  payload.
\<close>

theorem other_strategy_counterexample:
  "VerifiableEigenAI_verifySerializedProof (stub_env JNull) (createVerifiableEigenAI eigenai_config)
     (OfClaude (VerifiableClaude_serializeResult (stub_env JNull) sample_claude_result))
   = ([], Inr \<lparr>isValid = False, verifiedEndpoint = None,
               error = Some ''\"undefined\" is not valid JSON'',
               outputMatches = Some False, reExecutedOutput = None\<rparr>)
   \<and> VerifiableEigenAI_verifySerializedProof (stub_env JNull) (createVerifiableEigenAI eigenai_config)
       (OfClaude (VerifiableClaude_serializeResult (stub_env JNull) sample_claude_result))
     = VerifiableEigenAI_verifySerializedProof (stub_env JNull)
         (createVerifiableEigenAI eigenai_config)
         (OfEigenAI \<lparr>attestationJson = ''undefined'', text_se = ''4'',
                    timestamp_se = 1700000000000, model_se = ''gpt-oss-120b-f16'',
                    provider_se = eigenai\<rparr>)"
  by (simp add: eigenai_verifySerializedProof_cases reexecution_failed_def stub_simps)

text \<open>
  Claim C7, as amended. \<^verbatim>\<open>generate\<close> of either client throws
  \<^verbatim>\<open>Either 'messages' or 'prompt' must be provided\<close>, having sent nothing, when
  \<^verbatim>\<open>options.messages\<close> is absent and \<^verbatim>\<open>options.prompt\<close> is absent or the empty
  string. When \<^verbatim>\<open>options.messages\<close> is supplied, the request is sent with exactly
  those messages, also when the array is empty, and the prompt is ignored; when
  \<^verbatim>\<open>options.messages\<close> is absent and the prompt is a non-empty string, the request is
  sent with the prompt as one user message. The re-execution client puts the system
  prompt, when it is a non-empty string, in front as a system message.
\<close>

theorem generate_dispatch_condition:
  "(messages options = None \<and> (prompt options = None \<or> prompt options = Some [])
    \<longrightarrow> VerifiableClaude_generate env claude options
        = ([], Inl (Error ''Either 'messages' or 'prompt' must be provided'')))
   \<and> (messages options = Some ms
    \<longrightarrow> map body (fst (VerifiableClaude_generate env claude options))
        = [JSON_stringify env
             (claude_body options (or_string (model options) ''claude-3-5-sonnet-20241022'')
                (or_number (maxTokens options) 1024) ms
                (coalesce_number (temperature options) 1))])
   \<and> (messages options = None \<and> prompt options = Some p \<and> p \<noteq> []
    \<longrightarrow> map body (fst (VerifiableClaude_generate env claude options))
        = [JSON_stringify env
             (claude_body options (or_string (model options) ''claude-3-5-sonnet-20241022'')
                (or_number (maxTokens options) 1024) [\<lparr>role = user, content = p\<rparr>]
                (coalesce_number (temperature options) 1))])
   \<and> own_prop (claude_body options model' maxTokens' ms temperature') ''messages''
       = JArr (map message_js ms)
   \<and> (messages options_e = None \<and> (prompt options_e = None \<or> prompt options_e = Some [])
    \<longrightarrow> VerifiableEigenAI_generate env eigen options_e
        = ([], Inl (Error ''Either 'messages' or 'prompt' must be provided'')))
   \<and> (messages options_e = Some ms
    \<longrightarrow> map messages_q (fst (VerifiableEigenAI_generate env eigen options_e))
        = [map message_param
             ((case system options_e of None \<Rightarrow> []
               | Some s \<Rightarrow> (if s = [] then [] else [\<lparr>role = system_role, content = s\<rparr>]))
              @ ms)])
   \<and> (messages options_e = None \<and> prompt options_e = Some p \<and> p \<noteq> []
    \<longrightarrow> map messages_q (fst (VerifiableEigenAI_generate env eigen options_e))
        = [map message_param
             ((case system options_e of None \<Rightarrow> []
               | Some s \<Rightarrow> (if s = [] then [] else [\<lparr>role = system_role, content = s\<rparr>]))
              @ [\<lparr>role = user, content = p\<rparr>])])"
proof (intro conjI impI)
  show "VerifiableClaude_generate env claude options
        = ([], Inl (Error ''Either 'messages' or 'prompt' must be provided''))"
    if "messages options = None \<and> (prompt options = None \<or> prompt options = Some [])"
    using that by (auto simp add: claude_generate_cases or_string_def)
  show "map body (fst (VerifiableClaude_generate env claude options))
        = [JSON_stringify env
             (claude_body options (or_string (model options) ''claude-3-5-sonnet-20241022'')
                (or_number (maxTokens options) 1024) ms
                (coalesce_number (temperature options) 1))]"
    if "messages options = Some ms"
    using that by (simp add: claude_generate_cases Let_def)
  show "map body (fst (VerifiableClaude_generate env claude options))
        = [JSON_stringify env
             (claude_body options (or_string (model options) ''claude-3-5-sonnet-20241022'')
                (or_number (maxTokens options) 1024) [\<lparr>role = user, content = p\<rparr>]
                (coalesce_number (temperature options) 1))]"
    if "messages options = None \<and> prompt options = Some p \<and> p \<noteq> []"
    using that by (simp add: claude_generate_cases or_string_def Let_def)
  show "own_prop (claude_body options model' maxTokens' ms temperature') ''messages''
       = JArr (map message_js ms)"
    by (simp add: claude_body_def)
  show "VerifiableEigenAI_generate env eigen options_e
        = ([], Inl (Error ''Either 'messages' or 'prompt' must be provided''))"
    if "messages options_e = None \<and> (prompt options_e = None \<or> prompt options_e = Some [])"
    using that by (auto simp add: VerifiableEigenAI_generate_def eigenai_messages_def Let_def)
  show "map messages_q (fst (VerifiableEigenAI_generate env eigen options_e))
        = [map message_param
             ((case system options_e of None \<Rightarrow> []
               | Some s \<Rightarrow> (if s = [] then [] else [\<lparr>role = system_role, content = s\<rparr>]))
              @ ms)]"
    if "messages options_e = Some ms"
    using that by (simp add: eigenai_generate_sent eigenai_messages_def Let_def)
  show "map messages_q (fst (VerifiableEigenAI_generate env eigen options_e))
        = [map message_param
             ((case system options_e of None \<Rightarrow> []
               | Some s \<Rightarrow> (if s = [] then [] else [\<lparr>role = system_role, content = s\<rparr>]))
              @ [\<lparr>role = user, content = p\<rparr>])]"
    if "messages options_e = None \<and> prompt options_e = Some p \<and> p \<noteq> []"
    using that by (simp add: eigenai_generate_sent eigenai_messages_def Let_def)
qed

text \<open>
  C7 at three calls: an empty prompt, a system prompt alone, and a system prompt with a
  prompt.
\<close>

theorem generate_dispatch_witness:
  "VerifiableClaude_generate (stub_env JNull) (createVerifiableClaude default_config)
     (no_options\<lparr>prompt := Some []\<rparr>)
   = ([], Inl (Error ''Either 'messages' or 'prompt' must be provided''))
   \<and> VerifiableEigenAI_generate (stub_env JNull) (createVerifiableEigenAI eigenai_config)
       (no_options_e\<lparr>system := Some ''Be brief.''\<rparr>)
     = ([], Inl (Error ''Either 'messages' or 'prompt' must be provided''))
   \<and> map messages_q
       (fst (VerifiableEigenAI_generate (stub_env JNull) (createVerifiableEigenAI eigenai_config)
               (no_options_e\<lparr>system := Some ''Be brief.'', prompt := Some ''What is 2 + 2?''\<rparr>)))
     = [[\<lparr>role_p = JStr ''system'', content_p = JStr ''Be brief.''\<rparr>,
         \<lparr>role_p = JStr ''user'', content_p = JStr ''What is 2 + 2?''\<rparr>]]"
proof -
  have absent: "messages (no_options\<lparr>prompt := Some []\<rparr>) = None
      \<and> (prompt (no_options\<lparr>prompt := Some []\<rparr>) = None
          \<or> prompt (no_options\<lparr>prompt := Some []\<rparr>) = Some [])"
    by (simp add: no_options_def)
  have absent_e: "messages (no_options_e\<lparr>system := Some ''Be brief.''\<rparr>) = None
      \<and> (prompt (no_options_e\<lparr>system := Some ''Be brief.''\<rparr>) = None
          \<or> prompt (no_options_e\<lparr>system := Some ''Be brief.''\<rparr>) = Some [])"
    by (simp add: no_options_e_def)
  have given: "messages (no_options_e\<lparr>system := Some ''Be brief.'', prompt := Some ''What is 2 + 2?''\<rparr>) = None
      \<and> prompt (no_options_e\<lparr>system := Some ''Be brief.'', prompt := Some ''What is 2 + 2?''\<rparr>)
          = Some ''What is 2 + 2?'' \<and> ''What is 2 + 2?'' \<noteq> []"
    by (simp add: no_options_e_def)
  show ?thesis
    using generate_dispatch_condition
            [of "no_options\<lparr>prompt := Some []\<rparr>" "stub_env JNull"
                "createVerifiableClaude default_config" "[]" "[]" "[]" 0 0
                "no_options_e\<lparr>system := Some ''Be brief.''\<rparr>"
                "createVerifiableEigenAI eigenai_config"]
          generate_dispatch_condition
            [of no_options "stub_env JNull"
                "createVerifiableClaude default_config" "[]" "''What is 2 + 2?''" "[]" 0 0
                "no_options_e\<lparr>system := Some ''Be brief.'', prompt := Some ''What is 2 + 2?''\<rparr>"
                "createVerifiableEigenAI eigenai_config"]
          absent absent_e given
    by (simp add: message_param_def no_options_def no_options_e_def)
qed

text \<open>
  C7 as stated fails at an empty \<^verbatim>\<open>messages\<close> array with no prompt: both clients send
  the request, with no message in it, and \<^verbatim>\<open>generate\<close> returns a result.
\<close>

theorem generate_dispatch_counterexample:
  "VerifiableClaude_generate (stub_env (witnessed_response ''{\"id\":\"msg_01\"}''))
     (createVerifiableClaude default_config) (no_options\<lparr>messages := Some []\<rparr>)
   = ([\<lparr>url = ''https://api.anthropic.com/v1/messages'', http_method = ''POST'',
        body = ''{\"model\":\"claude-3-5-sonnet-20241022\",\"max_tokens\":1024,\"messages\":[],\"temperature\":1}'',
        x_api_key = ''sk-ant-test''\<rparr>],
      Inr \<lparr>text_c = JStr [], proof_c = witnessed_response ''{\"id\":\"msg_01\"}'',
           timestamp_c = 1700000000000, model_c = ''claude-3-5-sonnet-20241022'',
           provider_c = reclaim, rawResponse_c = JObj [(''id'', JStr ''msg_01'')]\<rparr>)
   \<and> map messages_q
       (fst (VerifiableEigenAI_generate (stub_env JNull) (createVerifiableEigenAI eigenai_config)
               (no_options_e\<lparr>messages := Some []\<rparr>)))
     = [[]]
   \<and> map_sum id text_e
       (snd (VerifiableEigenAI_generate (stub_env JNull) (createVerifiableEigenAI eigenai_config)
               (no_options_e\<lparr>messages := Some []\<rparr>)))
     = Inr ''4''"
proof (intro conjI)
  show "VerifiableClaude_generate (stub_env (witnessed_response ''{\"id\":\"msg_01\"}''))
     (createVerifiableClaude default_config) (no_options\<lparr>messages := Some []\<rparr>)
   = ([\<lparr>url = ''https://api.anthropic.com/v1/messages'', http_method = ''POST'',
        body = ''{\"model\":\"claude-3-5-sonnet-20241022\",\"max_tokens\":1024,\"messages\":[],\"temperature\":1}'',
        x_api_key = ''sk-ant-test''\<rparr>],
      Inr \<lparr>text_c = JStr [], proof_c = witnessed_response ''{\"id\":\"msg_01\"}'',
           timestamp_c = 1700000000000, model_c = ''claude-3-5-sonnet-20241022'',
           provider_c = reclaim, rawResponse_c = JObj [(''id'', JStr ''msg_01'')]\<rparr>)"
    by (simp add: claude_generate_cases VerifiableClaude_generate_try_def claude_body_def
          no_options_def or_string_def or_number_def coalesce_number_def opt_get_def nullish_def
          createVerifiableClaude_def ANTHROPIC_API_ENDPOINT_def Let_def stub_simps
          attestation_js_def optional_field_def message_js_def)
  show "map messages_q
       (fst (VerifiableEigenAI_generate (stub_env JNull) (createVerifiableEigenAI eigenai_config)
               (no_options_e\<lparr>messages := Some []\<rparr>)))
     = [[]]"
    by (simp add: eigenai_generate_sent eigenai_messages_def no_options_e_def)
  show "map_sum id text_e
       (snd (VerifiableEigenAI_generate (stub_env JNull) (createVerifiableEigenAI eigenai_config)
               (no_options_e\<lparr>messages := Some []\<rparr>)))
     = Inr ''4''"
    by (simp add: VerifiableEigenAI_generate_def eigenai_messages_def no_options_e_def
          output_text_def or_string_def Let_def stub_env_def stub_completion_def)
qed



text \<open>
  Claim C9, as amended. Suppose \<^verbatim>\<open>generate\<close> of the transcript-proof client has sent
  its request, the witness network has returned a bundle, the response was extracted
  from it and \<^verbatim>\<open>JSON.parse\<close> has returned an object. If the \<^verbatim>\<open>content\<close> of that
  object is not an array, or is an array none of whose items is \<^verbatim>\<open>null\<close> (or
  \<^verbatim>\<open>undefined\<close>, which \<^verbatim>\<open>JSON.parse\<close> never produces) and none of whose items has
  \<^verbatim>\<open>type\<close> equal to \<^verbatim>\<open>text\<close>, then \<^verbatim>\<open>generate\<close> returns the fully
  constructed result (bundle, time stamp, model, provider, raw response) whose
  \<^verbatim>\<open>text\<close> is the empty string.
\<close>

theorem generate_without_text_item:
  assumes dispatched: "fst (VerifiableClaude_generate env this options) = [request]"
    and witnessed: "zkFetch env request = Inr bundle"
    and returned: "truthy bundle"
    and extracted: "truthy (opt_get (own_prop bundle ''extractedParameterValues'') ''response'')"
    and parsed: "JSON_parse env (opt_get (own_prop bundle ''extractedParameterValues'') ''response'')
                   = Inr (JObj props)"
    and no_text:
      "(\<forall>items. own_prop (JObj props) ''content'' \<noteq> JArr items)
       \<or> (\<exists>items. own_prop (JObj props) ''content'' = JArr items
             \<and> (\<forall>item \<in> set items. \<not> nullish item \<and> own_prop item ''type'' \<noteq> JStr ''text''))"
  shows "snd (VerifiableClaude_generate env this options)
           = Inr \<lparr>text_c = JStr [], proof_c = bundle, timestamp_c = Date_now env,
                  model_c = (case model options of None \<Rightarrow> ''claude-3-5-sonnet-20241022''
                             | Some given \<Rightarrow>
                                 (if given = [] then ''claude-3-5-sonnet-20241022'' else given)),
                  provider_c = reclaim, rawResponse_c = JObj props\<rparr>"
proof -
  have attempt: "VerifiableClaude_generate_try env (or_string (model options) ''claude-3-5-sonnet-20241022'') request
           = Inr \<lparr>text_c = JStr [], proof_c = bundle, timestamp_c = Date_now env,
                  model_c = or_string (model options) ''claude-3-5-sonnet-20241022'',
                  provider_c = reclaim, rawResponse_c = JObj props\<rparr>"
    using witnessed returned extracted parsed no_text by (rule generate_try_without_text)
  have model: "or_string (model options) ''claude-3-5-sonnet-20241022''
      = (case model options of None \<Rightarrow> ''claude-3-5-sonnet-20241022''
         | Some given \<Rightarrow> (if given = [] then ''claude-3-5-sonnet-20241022'' else given))"
    by (simp add: or_string_def)
  show ?thesis
  proof (cases "messages options")
    case (Some ms)
    with dispatched attempt show ?thesis
      by (simp add: claude_generate_cases Let_def model)
  next
    case None
    with dispatched attempt show ?thesis
      by (simp add: claude_generate_cases Let_def model split: if_splits)
  qed
qed

text \<open>
  C9 at a response whose only content item is a tool call, and at a response with no
  \<^verbatim>\<open>content\<close> at all.
\<close>

theorem generate_without_text_item_witness:
  "snd (VerifiableClaude_generate
          (stub_env (witnessed_response ''{\"id\":\"msg_02\",\"content\":[{\"type\":\"tool_use\"}]}''))
          (createVerifiableClaude default_config) (no_options\<lparr>prompt := Some ''Hello''\<rparr>))
   = Inr \<lparr>text_c = JStr [],
          proof_c = witnessed_response ''{\"id\":\"msg_02\",\"content\":[{\"type\":\"tool_use\"}]}'',
          timestamp_c = 1700000000000, model_c = ''claude-3-5-sonnet-20241022'',
          provider_c = reclaim,
          rawResponse_c =
            JObj [(''id'', JStr ''msg_02''),
                  (''content'', JArr [JObj [(''type'', JStr ''tool_use'')]])]\<rparr>
   \<and> snd (VerifiableClaude_generate (stub_env (witnessed_response ''{\"id\":\"msg_01\"}''))
            (createVerifiableClaude default_config) (no_options\<lparr>prompt := Some ''Hello''\<rparr>))
     = Inr \<lparr>text_c = JStr [], proof_c = witnessed_response ''{\"id\":\"msg_01\"}'',
            timestamp_c = 1700000000000, model_c = ''claude-3-5-sonnet-20241022'',
            provider_c = reclaim, rawResponse_c = JObj [(''id'', JStr ''msg_01'')]\<rparr>"
proof -
  let ?tool = "witnessed_response ''{\"id\":\"msg_02\",\"content\":[{\"type\":\"tool_use\"}]}''"
  let ?bare = "witnessed_response ''{\"id\":\"msg_01\"}''"
  let ?client = "createVerifiableClaude default_config"
  let ?options = "no_options\<lparr>prompt := Some ''Hello''\<rparr>"
  have tool:
    "snd (VerifiableClaude_generate (stub_env ?tool) ?client ?options)
     = Inr \<lparr>text_c = JStr [], proof_c = ?tool, timestamp_c = Date_now (stub_env ?tool),
            model_c = (case model ?options of None \<Rightarrow> ''claude-3-5-sonnet-20241022''
                       | Some given \<Rightarrow>
                           (if given = [] then ''claude-3-5-sonnet-20241022'' else given)),
            provider_c = reclaim,
            rawResponse_c =
              JObj [(''id'', JStr ''msg_02''),
                    (''content'', JArr [JObj [(''type'', JStr ''tool_use'')]])]\<rparr>"
  proof (rule generate_without_text_item [OF stub_dispatched])
    show "zkFetch (stub_env ?tool)
            (hd (fst (VerifiableClaude_generate (stub_env ?tool) ?client ?options))) = Inr ?tool"
      by (simp add: stub_env_def)
    show "truthy ?tool"
      by (simp add: witnessed_response_def)
    show "truthy (opt_get (own_prop ?tool ''extractedParameterValues'') ''response'')"
      by (simp add: witnessed_response_def opt_get_def nullish_def)
    show "JSON_parse (stub_env ?tool)
            (opt_get (own_prop ?tool ''extractedParameterValues'') ''response'')
          = Inr (JObj [(''id'', JStr ''msg_02''),
                       (''content'', JArr [JObj [(''type'', JStr ''tool_use'')]])])"
      by (simp add: opt_get_def nullish_def stub_simps)
    show "(\<forall>items. own_prop (JObj [(''id'', JStr ''msg_02''),
                       (''content'', JArr [JObj [(''type'', JStr ''tool_use'')]])]) ''content''
                    \<noteq> JArr items)
          \<or> (\<exists>items. own_prop (JObj [(''id'', JStr ''msg_02''),
                       (''content'', JArr [JObj [(''type'', JStr ''tool_use'')]])]) ''content''
                     = JArr items
                \<and> (\<forall>item \<in> set items. \<not> nullish item
                       \<and> own_prop item ''type'' \<noteq> JStr ''text''))"
      by (simp add: nullish_def)
  qed
  have bare:
    "snd (VerifiableClaude_generate (stub_env ?bare) ?client ?options)
     = Inr \<lparr>text_c = JStr [], proof_c = ?bare, timestamp_c = Date_now (stub_env ?bare),
            model_c = (case model ?options of None \<Rightarrow> ''claude-3-5-sonnet-20241022''
                       | Some given \<Rightarrow>
                           (if given = [] then ''claude-3-5-sonnet-20241022'' else given)),
            provider_c = reclaim, rawResponse_c = JObj [(''id'', JStr ''msg_01'')]\<rparr>"
  proof (rule generate_without_text_item [OF stub_dispatched])
    show "zkFetch (stub_env ?bare)
            (hd (fst (VerifiableClaude_generate (stub_env ?bare) ?client ?options))) = Inr ?bare"
      by (simp add: stub_env_def)
    show "truthy ?bare"
      by (simp add: witnessed_response_def)
    show "truthy (opt_get (own_prop ?bare ''extractedParameterValues'') ''response'')"
      by (simp add: witnessed_response_def opt_get_def nullish_def)
    show "JSON_parse (stub_env ?bare)
            (opt_get (own_prop ?bare ''extractedParameterValues'') ''response'')
          = Inr (JObj [(''id'', JStr ''msg_01'')])"
      by (simp add: opt_get_def nullish_def stub_simps)
    show "(\<forall>items. own_prop (JObj [(''id'', JStr ''msg_01'')]) ''content'' \<noteq> JArr items)
          \<or> (\<exists>items. own_prop (JObj [(''id'', JStr ''msg_01'')]) ''content'' = JArr items
                \<and> (\<forall>item \<in> set items. \<not> nullish item
                       \<and> own_prop item ''type'' \<noteq> JStr ''text''))"
      by simp
  qed
  show ?thesis
    using tool bare by (simp add: stub_env_def no_options_def)
qed

text \<open>
  C9 as stated fails at a content array that holds \<^verbatim>\<open>null\<close>: it has no item of type
  \<^verbatim>\<open>text\<close>, yet the callback of \<^verbatim>\<open>find\<close> reads \<^verbatim>\<open>item.type\<close> of \<^verbatim>\<open>null\<close>,
  and \<^verbatim>\<open>generate\<close> fails.
\<close>

theorem generate_without_text_item_counterexample:
  "JSON_parse (stub_env JNull) (JStr ''{\"id\":\"msg_03\",\"content\":[null]}'')
   = Inr (JObj [(''id'', JStr ''msg_03''), (''content'', JArr [JNull])])
   \<and> snd (VerifiableClaude_generate
            (stub_env (witnessed_response ''{\"id\":\"msg_03\",\"content\":[null]}''))
            (createVerifiableClaude default_config) (no_options\<lparr>prompt := Some ''Hello''\<rparr>))
     = Inl (Error ''Verifiable generation failed: Cannot read properties of null (reading 'type')'')"
  by (simp add: claude_generate_cases VerifiableClaude_generate_try_def no_options_def
        or_string_def opt_get_def nullish_def Let_def stub_simps)

text \<open>
  Claim C10. The outcome of the static \<^verbatim>\<open>verifySerializedProof\<close> of the
  transcript-proof client is a function of \<^verbatim>\<open>proofJson\<close> alone: two serialized proofs
  with the same \<^verbatim>\<open>proofJson\<close> get the same result, and replacing \<^verbatim>\<open>text\<close>,
  \<^verbatim>\<open>timestamp\<close> and \<^verbatim>\<open>model\<close> of a serialized proof by any other values leaves
  the result unchanged.
\<close>

theorem serialized_outcome_depends_on_proofJson_only:
  "(proofJson s1 = proofJson s2
    \<longrightarrow> VerifiableClaude_verifySerializedProof env (OfClaude s1)
        = VerifiableClaude_verifySerializedProof env (OfClaude s2))
   \<and> VerifiableClaude_verifySerializedProof env
       (OfClaude (s\<lparr>text_sc := text', timestamp_sc := timestamp', model_sc := model'\<rparr>))
     = VerifiableClaude_verifySerializedProof env (OfClaude s)"
  by (simp add: claude_verifySerializedProof_cases)

text \<open>
  C10 at the serialized sample result with its text, time stamp and model replaced: it
  is still reported valid.
\<close>

theorem serialized_outcome_witness:
  "VerifiableClaude_verifySerializedProof (stub_env JNull)
     (OfClaude \<lparr>proofJson = sample_proof_json, text_sc = JStr ''The capital of France is Lyon.'',
               timestamp_sc = 0, model_sc = ''claude-3-opus-20240229'', provider_sc = reclaim\<rparr>)
   = VerifiableClaude_verifySerializedProof (stub_env JNull)
       (OfClaude (VerifiableClaude_serializeResult (stub_env JNull) sample_claude_result))
   \<and> VerifiableClaude_verifySerializedProof (stub_env JNull)
     (OfClaude \<lparr>proofJson = sample_proof_json, text_sc = JStr ''The capital of France is Lyon.'',
               timestamp_sc = 0, model_sc = ''claude-3-opus-20240229'', provider_sc = reclaim\<rparr>)
     = Inr \<lparr>isValid = True,
            verifiedEndpoint = Some ''https://api.anthropic.com/v1/messages'', error = None\<rparr>"
proof -
  have same: "proofJson \<lparr>proofJson = sample_proof_json,
                 text_sc = JStr ''The capital of France is Lyon.'',
                 timestamp_sc = 0, model_sc = ''claude-3-opus-20240229'', provider_sc = reclaim\<rparr>
              = proofJson (VerifiableClaude_serializeResult (stub_env JNull) sample_claude_result)"
    by (simp add: VerifiableClaude_serializeResult_def stub_simps)
  have valid: "VerifiableClaude_verifySerializedProof (stub_env JNull)
       (OfClaude (VerifiableClaude_serializeResult (stub_env JNull) sample_claude_result))
     = Inr \<lparr>isValid = True,
            verifiedEndpoint = Some ''https://api.anthropic.com/v1/messages'', error = None\<rparr>"
    by (simp add: claude_verifySerializedProof_cases VerifiableClaude_serializeResult_def
          ANTHROPIC_API_ENDPOINT_def stub_simps)
  show ?thesis
    using serialized_outcome_depends_on_proofJson_only
            [of "\<lparr>proofJson = sample_proof_json,
                 text_sc = JStr ''The capital of France is Lyon.'',
                 timestamp_sc = 0, model_sc = ''claude-3-opus-20240229'', provider_sc = reclaim\<rparr>"
                "VerifiableClaude_serializeResult (stub_env JNull) sample_claude_result"
                "stub_env JNull"]
          same valid
    by simp
qed

end
